theory Spec2Isabelle
  imports Main "HOL-Library.AList"
begin

section \<open>Host language: strings and values\<close>

text \<open>
  A JavaScript string is a sequence of UTF-16 code units. The model uses \<^typ>\<open>string\<close>
  with one \<^typ>\<open>char\<close> per code unit, which covers the strings whose code units are
  below 256 (Latin-1); the section sign of the colour codes is the code unit 0xA7.
\<close>

definition sect :: char where
  "sect = CHR 0xA7"

text \<open>The quotation marks that appear inside the modules' messages.\<close>

definition dq :: string where
  "dq = [CHR 0x22]"

definition sq :: string where
  "sq = [CHR 0x27]"

text \<open>The white space of \<^verbatim>\<open>\s\<close> and of \<^verbatim>\<open>trim\<close> below code unit 256.\<close>

definition is_ws :: "char \<Rightarrow> bool" where
  "is_ws c = (of_char c \<in> {9, 10, 11, 12, 13, 32, 160 :: nat})"

definition trim :: "string \<Rightarrow> string" where
  "trim s = rev (dropWhile is_ws (rev (dropWhile is_ws s)))"

text \<open>
  \<^verbatim>\<open>s.split(/\s+/)\<close>: the pieces between maximal runs of white space. The first
  argument is the piece being read, reversed.
\<close>

fun splitWsFrom :: "string \<Rightarrow> string \<Rightarrow> string list" where
  "splitWsFrom cur [] = [rev cur]"
| "splitWsFrom cur (c # cs) =
     (if is_ws c then
        (if cs \<noteq> [] \<and> is_ws (hd cs) then splitWsFrom cur cs
         else rev cur # splitWsFrom [] cs)
      else splitWsFrom (c # cur) cs)"

definition splitWs :: "string \<Rightarrow> string list" where
  "splitWs s = splitWsFrom [] s"

definition toLowerChar :: "char \<Rightarrow> char" where
  "toLowerChar c =
     (let n = (of_char c :: nat)
      in if (65 \<le> n \<and> n \<le> 90) \<or> (192 \<le> n \<and> n \<le> 222 \<and> n \<noteq> 215)
         then char_of (n + 32) else c)"

definition toLowerCase :: "string \<Rightarrow> string" where
  "toLowerCase s = map toLowerChar s"

text \<open>\<^verbatim>\<open>xs.join(sep)\<close> on an array of strings.\<close>

fun join :: "string \<Rightarrow> string list \<Rightarrow> string" where
  "join sep [] = []"
| "join sep [x] = x"
| "join sep (x # y # ys) = x @ sep @ join sep (y # ys)"

text \<open>Decimal digits of a natural number and of an integer, as \<^verbatim>\<open>String(n)\<close> prints them.\<close>

definition digit_char :: "nat \<Rightarrow> char" where
  "digit_char d = char_of (48 + d)"

fun show_nat :: "nat \<Rightarrow> string" where
  "show_nat n = (if n < 10 then [digit_char n] else show_nat (n div 10) @ [digit_char (n mod 10)])"

definition show_int :: "int \<Rightarrow> string" where
  "show_int i = (if i < 0 then CHR ''-'' # show_nat (nat (- i)) else show_nat (nat i))"

text \<open>
  The values a violation-details payload is made of. A number is an integer-valued double
  that \<^verbatim>\<open>String\<close> prints in decimal (magnitude below \<open>10^21\<close>). An object is the
  list of its own enumerable string-keyed properties in the order they were created;
  a well-formed object has distinct keys.
\<close>

datatype jsval =
    JUndefined
  | JNull
  | JBool bool
  | JNum int
  | JStr string
  | JObj "(string \<times> jsval) list"

fun truthy :: "jsval \<Rightarrow> bool" where
  "truthy JUndefined = False"
| "truthy JNull = False"
| "truthy (JBool b) = b"
| "truthy (JNum n) = (n \<noteq> 0)"
| "truthy (JStr s) = (s \<noteq> [])"
| "truthy (JObj ps) = True"

fun typeof :: "jsval \<Rightarrow> string" where
  "typeof JUndefined = ''undefined''"
| "typeof JNull = ''object''"
| "typeof (JBool b) = ''boolean''"
| "typeof (JNum n) = ''number''"
| "typeof (JStr s) = ''string''"
| "typeof (JObj ps) = ''object''"

text \<open>\<^verbatim>\<open>String(value)\<close>.\<close>

fun js_String :: "jsval \<Rightarrow> string" where
  "js_String JUndefined = ''undefined''"
| "js_String JNull = ''null''"
| "js_String (JBool b) = (if b then ''true'' else ''false'')"
| "js_String (JNum n) = show_int n"
| "js_String (JStr s) = s"
| "js_String (JObj ps) = ''[object Object]''"

text \<open>
  The order of an object's own keys (OrdinaryOwnPropertyKeys): the keys that are array
  indices (canonical decimal strings below \<open>2^32 - 1\<close>) in ascending numeric order, then
  the other string keys in creation order. \<^verbatim>\<open>Object.keys\<close> and
  \<^verbatim>\<open>Object.entries\<close> follow it.
\<close>

definition is_digit :: "char \<Rightarrow> bool" where
  "is_digit c = (48 \<le> (of_char c :: nat) \<and> (of_char c :: nat) \<le> 57)"

definition digits_value :: "string \<Rightarrow> nat" where
  "digits_value s = foldl (\<lambda>acc c. 10 * acc + ((of_char c :: nat) - 48)) 0 s"

definition is_array_index :: "string \<Rightarrow> bool" where
  "is_array_index s =
     (s \<noteq> [] \<and> list_all is_digit s \<and> (s = ''0'' \<or> hd s \<noteq> CHR ''0'')
      \<and> digits_value s < 4294967295)"

definition own_properties :: "(string \<times> jsval) list \<Rightarrow> (string \<times> jsval) list" where
  "own_properties ps =
     sort_key (\<lambda>p. digits_value (fst p)) (filter (\<lambda>p. is_array_index (fst p)) ps)
     @ filter (\<lambda>p. \<not> is_array_index (fst p)) ps"

fun object_entries :: "jsval \<Rightarrow> (string \<times> jsval) list" where
  "object_entries (JObj ps) = own_properties ps"
| "object_entries v = []"

definition object_keys :: "jsval \<Rightarrow> string list" where
  "object_keys v = map fst (object_entries v)"

text \<open>
  The members an ordinary object inherits from \<^verbatim>\<open>Object.prototype\<close>. A property
  read \<^verbatim>\<open>table[key]\<close> on a configuration table finds them when the table has no own
  property of that name; each is a function or an object, so it is truthy, is not a
  string, and has no \<^verbatim>\<open>enabled\<close>.
\<close>

definition object_prototype_members :: "string list" where
  "object_prototype_members =
     [''constructor'', ''__defineGetter__'', ''__defineSetter__'', ''hasOwnProperty'',
      ''__lookupGetter__'', ''__lookupSetter__'', ''isPrototypeOf'', ''propertyIsEnumerable'',
      ''toString'', ''valueOf'', ''__proto__'', ''toLocaleString'']"

section \<open>Action manager: message formatting\<close>

text \<open>\<^verbatim>\<open>formatViolationDetails\<close> of actionManager.js.\<close>

definition render_entry :: "string \<times> jsval \<Rightarrow> string" where
  "render_entry p = fst p @ '': '' @ js_String (snd p)"

definition formatViolationDetails :: "jsval \<Rightarrow> string" where
  "formatViolationDetails violationDetails =
     (if \<not> truthy violationDetails \<or> typeof violationDetails \<noteq> ''object''
         \<or> length (object_keys violationDetails) = 0
      then ''N/A''
      else join '', '' (map render_entry (object_entries violationDetails)))"

section \<open>Host objects shared by the modules\<close>

text \<open>
  A thrown \<^verbatim>\<open>Error\<close>: its name, message and stack. \<^verbatim>\<open>String(error)\<close> and
  \<^verbatim>\<open>error.stack || error\<close> print it.
\<close>

datatype js_error = JsError (err_name: string) (err_message: string) (err_stack: "string option")

definition error_toString :: "js_error \<Rightarrow> string" where
  "error_toString e =
     (if err_name e = [] then err_message e
      else if err_message e = [] then err_name e
      else err_name e @ '': '' @ err_message e)"

definition stack_or_error :: "js_error \<Rightarrow> string" where
  "stack_or_error e =
     (case err_stack e of
        Some st \<Rightarrow> (if st \<noteq> [] then st else error_toString e)
      | None \<Rightarrow> error_toString e)"

text \<open>
  A player object: its \<^verbatim>\<open>id\<close>, \<^verbatim>\<open>nameTag\<close> and \<^verbatim>\<open>name\<close>. A
  property that is missing reads as the empty string, which is falsy like
  \<^verbatim>\<open>undefined\<close>. A player that is null or undefined is \<open>None\<close>.
\<close>

record Player =
  player_id :: string
  nameTag :: string
  player_name :: string

text \<open>The value \<^verbatim>\<open>parseDuration\<close> returns: null, a number of milliseconds, or Infinity.\<close>

datatype duration = DurNull | DurMs int | DurInfinity

record item_context =
  itemTypeId :: jsval
  ctx_timestamp :: int

text \<open>The part of a player's moderation state (pData) that these modules read and write.\<close>

record pdata =
  isWatched :: bool
  lastViolationDetailsMap :: "(string \<rightharpoonup> item_context) option"
  isDirtyForSave :: bool

text \<open>
  The calls a module makes to its collaborators, in the order it makes them: console
  output, messages to players, the debug trace, admin notifications, flag, log and ban
  records, and disconnecting a player.
\<close>

datatype event =
    ConsoleLog string
  | ConsoleWarn string
  | ConsoleError string
  | SendMessage Player string
  | DebugLog string "string option"
  | WarnPlayer Player string
  | NotifyAdmins string "Player option" "pdata option"
  | AddFlag Player string string string
  | AddLog "jsval list"
  | AddBan Player duration string string bool "string option"
  | Kick Player string

section \<open>Report manager\<close>

definition reportsPropertyKeyName :: string where
  "reportsPropertyKeyName = ''anticheat:reports_v1''"

definition maxReportsCount :: nat where
  "maxReportsCount = 100"

record ReportEntry =
  report_id :: string
  timestamp :: int
  reporterId :: string
  reporterName :: string
  reportedId :: string
  reportedName :: string
  report_reason :: string

text \<open>
  The module's state: the in-memory cache, the dirty flag, the world's dynamic properties
  and the console lines written so far.
\<close>

record report_state =
  reportsInMemory :: "ReportEntry list"
  reportsAreDirty :: bool
  world :: "string \<rightharpoonup> jsval"
  console :: "event list"

text \<open>
  What the host supplies: JSON serialisation and parsing, and the write of a dynamic
  property, each of which may throw.
\<close>

record world_host =
  json_stringify :: "ReportEntry list \<Rightarrow> js_error + string"
  json_parse :: "string \<Rightarrow> js_error + ReportEntry list option"
  setDynamicProperty :: "(string \<rightharpoonup> jsval) \<Rightarrow> string \<Rightarrow> jsval \<Rightarrow> js_error + (string \<rightharpoonup> jsval)"

text \<open>
  The readings \<^verbatim>\<open>addReport\<close> takes from the host: \<^verbatim>\<open>Date.now()\<close> inside
  \<^verbatim>\<open>generateReportId\<close>, \<^verbatim>\<open>Math.random().toString(36)\<close>, and
  \<^verbatim>\<open>Date.now()\<close> for the timestamp.
\<close>

record report_clock =
  id_now :: int
  random36 :: string
  entry_now :: int

definition digit36 :: "nat \<Rightarrow> char" where
  "digit36 d = ''0123456789abcdefghijklmnopqrstuvwxyz'' ! d"

fun show_nat36 :: "nat \<Rightarrow> string" where
  "show_nat36 n = (if n < 36 then [digit36 n] else show_nat36 (n div 36) @ [digit36 (n mod 36)])"

definition toString36 :: "int \<Rightarrow> string" where
  "toString36 i = (if i < 0 then CHR ''-'' # show_nat36 (nat (- i)) else show_nat36 (nat i))"

definition generateReportId :: "report_clock \<Rightarrow> string" where
  "generateReportId clk = toString36 (id_now clk) @ take 5 (drop 2 (random36 clk))"

definition initializeReportCache :: "world_host \<Rightarrow> report_state \<Rightarrow> report_state" where
  "initializeReportCache host s =
     (case world s reportsPropertyKeyName of
        Some (JStr rawReports) \<Rightarrow>
          (case json_parse host rawReports of
             Inl e \<Rightarrow>
               s\<lparr>reportsInMemory := [],
                 console := console s @ [ConsoleWarn
                   (''[ReportManager] Error reading or parsing reports from dynamic property during initialization: ''
                    @ stack_or_error e)]\<rparr>
           | Inr (Some parsedReports) \<Rightarrow>
               s\<lparr>reportsInMemory := parsedReports,
                 console := console s @ [ConsoleLog
                   (''[ReportManager] Successfully loaded '' @ show_nat (length parsedReports)
                    @ '' reports into memory cache.'')]\<rparr>
           | Inr None \<Rightarrow>
               s\<lparr>reportsInMemory := [],
                 console := console s @ [ConsoleLog
                   (''[ReportManager] No valid reports found in dynamic properties for key '' @ sq
                    @ reportsPropertyKeyName @ sq @ ''. Initializing with empty cache.'')]\<rparr>)
      | _ \<Rightarrow>
          s\<lparr>reportsInMemory := [],
            console := console s @ [ConsoleLog
              (''[ReportManager] No valid reports found in dynamic properties for key '' @ sq
               @ reportsPropertyKeyName @ sq @ ''. Initializing with empty cache.'')]\<rparr>)"

definition persistReportsToDisk :: "world_host \<Rightarrow> report_state \<Rightarrow> bool \<times> report_state" where
  "persistReportsToDisk host s =
     (if \<not> reportsAreDirty s \<and> world s reportsPropertyKeyName \<noteq> None then (True, s)
      else
        (case json_stringify host (reportsInMemory s) of
           Inl e \<Rightarrow>
             (False, s\<lparr>console := console s @ [ConsoleError
                (''[ReportManager] Error saving reports to dynamic property: '' @ stack_or_error e)]\<rparr>)
         | Inr blob \<Rightarrow>
             (case setDynamicProperty host (world s) reportsPropertyKeyName (JStr blob) of
                Inl e \<Rightarrow>
                  (False, s\<lparr>console := console s @ [ConsoleError
                     (''[ReportManager] Error saving reports to dynamic property: '' @ stack_or_error e)]\<rparr>)
              | Inr w \<Rightarrow>
                  (True, s\<lparr>world := w, reportsAreDirty := False,
                     console := console s @ [ConsoleLog
                       (''[ReportManager] Successfully persisted '' @ show_nat (length (reportsInMemory s))
                        @ '' reports to dynamic property.'')]\<rparr>))))"

definition getReports :: "report_state \<Rightarrow> ReportEntry list" where
  "getReports s = reportsInMemory s"

text \<open>The object literal \<^verbatim>\<open>newReport\<close> of \<^verbatim>\<open>addReport\<close>.\<close>

definition newReport :: "report_clock \<Rightarrow> Player \<Rightarrow> Player \<Rightarrow> string \<Rightarrow> ReportEntry" where
  "newReport clk reporterPlayer reportedPlayer reason =
     \<lparr>report_id = generateReportId clk,
      timestamp = entry_now clk,
      reporterId = player_id reporterPlayer,
      reporterName = nameTag reporterPlayer,
      reportedId = player_id reportedPlayer,
      reportedName = nameTag reportedPlayer,
      report_reason = trim reason\<rparr>"

text \<open>
  The guard of \<^verbatim>\<open>addReport\<close>: both players present with a non-empty id and name tag,
  and a non-empty reason.
\<close>

definition valid_report_args :: "Player option \<Rightarrow> Player option \<Rightarrow> string \<Rightarrow> bool" where
  "valid_report_args reporterPlayer reportedPlayer reason =
     (case reporterPlayer of
        None \<Rightarrow> False
      | Some rp \<Rightarrow>
          (case reportedPlayer of
             None \<Rightarrow> False
           | Some tp \<Rightarrow>
               \<not> (player_id rp = [] \<or> nameTag rp = [] \<or> player_id tp = [] \<or> nameTag tp = []
                  \<or> reason = [])))"

definition addReport ::
  "report_clock \<Rightarrow> Player option \<Rightarrow> Player option \<Rightarrow> string \<Rightarrow> report_state
   \<Rightarrow> ReportEntry option \<times> report_state" where
  "addReport clk reporterPlayer reportedPlayer reason s =
     (case (reporterPlayer, reportedPlayer) of
        (Some rp, Some tp) \<Rightarrow>
          (if \<not> valid_report_args reporterPlayer reportedPlayer reason then
             (None, s\<lparr>console := console s @ [ConsoleWarn
                ''[ReportManager] addReport called with invalid arguments (player objects or reason missing/invalid).'']\<rparr>)
           else
             (let r = newReport clk rp tp reason;
                  unshifted = r # reportsInMemory s;
                  truncated = (if length unshifted > maxReportsCount
                               then take maxReportsCount unshifted else unshifted)
              in (Some r,
                  s\<lparr>reportsInMemory := truncated, reportsAreDirty := True,
                    console := console s @ [ConsoleLog
                      (''[ReportManager] Added report by '' @ reporterName r @ '' against ''
                       @ reportedName r @ ''. Cache size: '' @ show_nat (length truncated) @ ''.'')]\<rparr>)))
      | _ \<Rightarrow>
          (None, s\<lparr>console := console s @ [ConsoleWarn
             ''[ReportManager] addReport called with invalid arguments (player objects or reason missing/invalid).'']\<rparr>))"

definition clearAllReports :: "world_host \<Rightarrow> report_state \<Rightarrow> bool \<times> report_state" where
  "clearAllReports host s =
     persistReportsToDisk host
       (s\<lparr>reportsInMemory := [], reportsAreDirty := True,
          console := console s @ [ConsoleLog
            ''[ReportManager] All reports cleared from memory. Attempting to persist change.'']\<rparr>)"

definition clearReportById :: "world_host \<Rightarrow> string \<Rightarrow> report_state \<Rightarrow> bool \<times> report_state" where
  "clearReportById host reportId s =
     (let initialCount = length (reportsInMemory s);
          kept = filter (\<lambda>report. report_id report \<noteq> reportId) (reportsInMemory s)
      in if length kept < initialCount then
           persistReportsToDisk host
             (s\<lparr>reportsInMemory := kept, reportsAreDirty := True,
                console := console s @ [ConsoleLog
                  (''[ReportManager] Cleared report with ID: '' @ reportId
                   @ '' from memory. Attempting to persist.'')]\<rparr>)
         else
           (False, s\<lparr>reportsInMemory := kept,
              console := console s @ [ConsoleLog
                (''[ReportManager] Report with ID: '' @ reportId @ '' not found for clearing.'')]\<rparr>))"

text \<open>
  A sequence of \<^verbatim>\<open>addReport\<close> calls, each with its own host readings and
  arguments, run from left to right on the module's state.
\<close>

type_synonym report_call = "report_clock \<times> Player option \<times> Player option \<times> string"

definition valid_call :: "report_call \<Rightarrow> bool" where
  "valid_call c = (case c of (clk, rp, tp, reason) \<Rightarrow> valid_report_args rp tp reason)"

definition call_entry :: "report_call \<Rightarrow> ReportEntry option" where
  "call_entry c =
     (case c of
        (clk, Some rp, Some tp, reason) \<Rightarrow> Some (newReport clk rp tp reason)
      | _ \<Rightarrow> None)"

definition addReport_calls :: "report_call list \<Rightarrow> report_state \<Rightarrow> report_state" where
  "addReport_calls calls s =
     foldl (\<lambda>st c. case c of (clk, rp, tp, reason) \<Rightarrow> snd (addReport clk rp tp reason st)) s calls"

text \<open>Whether the store write of \<^verbatim>\<open>persistReportsToDisk\<close> throws.\<close>

definition write_fails :: "world_host \<Rightarrow> (string \<rightharpoonup> jsval) \<Rightarrow> ReportEntry list \<Rightarrow> bool" where
  "write_fails host w reports =
     (case json_stringify host reports of
        Inl e \<Rightarrow> True
      | Inr blob \<Rightarrow>
          (case setDynamicProperty host w reportsPropertyKeyName (JStr blob) of
             Inl e \<Rightarrow> True
           | Inr w' \<Rightarrow> False))"

section \<open>Action manager\<close>

text \<open>
  \<^verbatim>\<open>subject.replace(new RegExp(source, 'g'), replacement)\<close> is the host's regular
  expression engine: it is a parameter of the model, and it may throw (a source that is
  not a regular expression).
\<close>

type_synonym regex_host = "string \<Rightarrow> string \<Rightarrow> string \<Rightarrow> js_error + string"

text \<open>\<^verbatim>\<open>value.key\<close> and \<^verbatim>\<open>value?.key\<close> on a details payload.\<close>

fun get_prop :: "jsval \<Rightarrow> string \<Rightarrow> jsval" where
  "get_prop (JObj ps) k = (case map_of ps k of Some x \<Rightarrow> x | None \<Rightarrow> JUndefined)"
| "get_prop v k = JUndefined"

text \<open>The loop of \<^verbatim>\<open>formatActionMessage\<close> over the own keys of the details.\<close>

fun replace_keys :: "regex_host \<Rightarrow> (string \<times> jsval) list \<Rightarrow> string \<Rightarrow> js_error + string" where
  "replace_keys rx [] message = Inr message"
| "replace_keys rx ((key, val) # rest) message =
     (case rx (''{'' @ key @ ''}'') message (js_String val) of
        Inl e \<Rightarrow> Inl e
      | Inr m \<Rightarrow> replace_keys rx rest m)"

definition formatActionMessage ::
  "regex_host \<Rightarrow> string \<Rightarrow> string \<Rightarrow> string \<Rightarrow> jsval \<Rightarrow> js_error + string" where
  "formatActionMessage rx template playerName checkType violationDetails =
     (if template = [] then Inr []
      else
        (case rx ''{playerName}'' template playerName of
           Inl e \<Rightarrow> Inl e
         | Inr m1 \<Rightarrow>
             (case rx ''{checkType}'' m1 checkType of
                Inl e \<Rightarrow> Inl e
              | Inr m2 \<Rightarrow>
                  (case rx ''{detailsString}'' m2 (formatViolationDetails violationDetails) of
                     Inl e \<Rightarrow> Inl e
                   | Inr m3 \<Rightarrow>
                       (if truthy violationDetails \<and> typeof violationDetails = ''object''
                        then replace_keys rx (object_entries violationDetails) m3
                        else Inr m3)))))"

text \<open>
  An action profile of the configuration. A field that is absent is \<open>None\<close>;
  \<^verbatim>\<open>increment\<close> is present only when it is a number.
\<close>

record flag_cfg =
  flag_type :: "string option"
  increment :: "int option"
  flag_reason :: "string option"

record log_cfg =
  actionType :: "string option"
  detailsPrefix :: "string option"
  includeViolationDetails :: "bool option"

record notify_cfg =
  notify_message :: "string option"

record ActionProfile =
  profile_enabled :: bool
  profile_flag :: "flag_cfg option"
  profile_log :: "log_cfg option"
  profile_notifyAdmins :: "notify_cfg option"

text \<open>The players' moderation state, by player id: what \<^verbatim>\<open>getPlayerData\<close> reads.\<close>

type_synonym pstore = "string \<rightharpoonup> pdata"

text \<open>
  The dependencies of \<^verbatim>\<open>executeCheckAction\<close>. Each collaborator may be missing:
  \<^verbatim>\<open>config?.checkActionProfiles\<close>, \<^verbatim>\<open>playerUtils?.debugLog\<close>,
  \<^verbatim>\<open>playerUtils?.notifyAdmins\<close>, \<^verbatim>\<open>playerDataManager\<close> and its
  \<^verbatim>\<open>addFlag\<close> and \<^verbatim>\<open>getPlayerData\<close>, \<^verbatim>\<open>logManager?.addLog\<close>.
  \<^verbatim>\<open>addFlag\<close> is the collaborator's own update of the moderation state.
\<close>

record action_deps =
  checkActionProfiles :: "(string \<rightharpoonup> ActionProfile) option"
  pu_debugLog :: bool
  pu_notifyAdmins :: bool
  pdm_present :: bool
  pdm_addFlag :: "(pstore \<Rightarrow> Player \<Rightarrow> string \<Rightarrow> string \<Rightarrow> string \<Rightarrow> pstore) option"
  pdm_getPlayerData :: bool
  lm_addLog :: bool

text \<open>\<^verbatim>\<open>playerUtils?.debugLog?.(message)\<close>.\<close>

definition trace :: "action_deps \<Rightarrow> string \<Rightarrow> event list" where
  "trace deps message = (if pu_debugLog deps then [DebugLog message None] else [])"

text \<open>\<^verbatim>\<open>a || b\<close> on an optional string.\<close>

definition or_else :: "string option \<Rightarrow> string \<Rightarrow> string" where
  "or_else a b = (case a of Some x \<Rightarrow> (if x \<noteq> [] then x else b) | None \<Rightarrow> b)"

text \<open>The flagging loop: \<^verbatim>\<open>increment\<close> awaited calls of \<^verbatim>\<open>addFlag\<close>, one after the other.\<close>

fun flag_loop ::
  "(pstore \<Rightarrow> Player \<Rightarrow> string \<Rightarrow> string \<Rightarrow> string \<Rightarrow> pstore) \<Rightarrow> nat \<Rightarrow> Player \<Rightarrow> string
   \<Rightarrow> string \<Rightarrow> string \<Rightarrow> pstore \<Rightarrow> event list \<times> pstore" where
  "flag_loop addFlag 0 player flagType reason details st = ([], st)"
| "flag_loop addFlag (Suc n) player flagType reason details st =
     (case flag_loop addFlag n player flagType reason details
             (addFlag st player flagType reason details) of
        (evs, st') \<Rightarrow> (AddFlag player flagType reason details # evs, st'))"

definition flag_step ::
  "action_deps \<Rightarrow> ActionProfile \<Rightarrow> Player option \<Rightarrow> string \<Rightarrow> string \<Rightarrow> jsval \<Rightarrow> string
   \<Rightarrow> pstore \<Rightarrow> event list \<times> pstore" where
  "flag_step deps profile player playerNameForLog checkType violationDetails flagReasonMessage st =
     (case (player, profile_flag profile, if pdm_present deps then pdm_addFlag deps else None) of
        (Some p, Some fl, Some addFlag) \<Rightarrow>
          (let flagType = or_else (flag_type fl) checkType;
               inc = (case increment fl of Some i \<Rightarrow> i | None \<Rightarrow> 1);
               flagDetailsForAdminNotify = formatViolationDetails violationDetails
           in case flag_loop addFlag (nat inc) p flagType flagReasonMessage
                     flagDetailsForAdminNotify st of
                (evs, st') \<Rightarrow>
                  (evs @ trace deps
                     (''[ActionManager] Flagged '' @ playerNameForLog @ '' for '' @ flagType
                      @ '' (x'' @ show_int inc @ ''). Reason: '' @ dq @ flagReasonMessage @ dq),
                   st'))
      | (None, Some fl, _) \<Rightarrow>
          (trace deps
             (''[ActionManager] Skipping flagging for checkType '' @ dq @ checkType @ dq
              @ '' because player is null. Profile had flagging enabled.''),
           st)
      | _ \<Rightarrow> ([], st))"

definition log_step ::
  "action_deps \<Rightarrow> ActionProfile \<Rightarrow> string \<Rightarrow> string \<Rightarrow> jsval \<Rightarrow> string \<Rightarrow> event list" where
  "log_step deps profile playerNameForLog checkType violationDetails flagReasonMessage =
     (case profile_log profile of
        Some lg \<Rightarrow>
          (if lm_addLog deps then
             (let logActionType = or_else (actionType lg) (''detected_'' @ checkType);
                  prefix = or_else (detailsPrefix lg) [];
                  logDetailsString =
                    (if includeViolationDetails lg \<noteq> Some False
                     then prefix @ formatViolationDetails violationDetails else prefix)
              in [AddLog [JObj [(''adminName'', JStr ''System''),
                               (''actionType'', JStr logActionType),
                               (''targetName'', JStr playerNameForLog),
                               (''details'', JStr (trim logDetailsString)),
                               (''reason'', JStr flagReasonMessage)]]])
           else [])
      | None \<Rightarrow> [])"

definition notify_step ::
  "regex_host \<Rightarrow> action_deps \<Rightarrow> ActionProfile \<Rightarrow> Player option \<Rightarrow> string \<Rightarrow> string \<Rightarrow> jsval
   \<Rightarrow> pstore \<Rightarrow> js_error + event list" where
  "notify_step rx deps profile player playerNameForLog checkType violationDetails st =
     (case profile_notifyAdmins profile of
        Some nt \<Rightarrow>
          (if or_else (notify_message nt) [] \<noteq> [] \<and> pu_notifyAdmins deps then
             (case formatActionMessage rx (or_else (notify_message nt) []) playerNameForLog
                     checkType violationDetails of
                Inl e \<Rightarrow> Inl e
              | Inr notifyMsg \<Rightarrow>
                  (let pData =
                         (case player of
                            Some p \<Rightarrow>
                              (if pdm_present deps \<and> pdm_getPlayerData deps
                               then st (player_id p) else None)
                          | None \<Rightarrow> None)
                   in Inr [NotifyAdmins notifyMsg player pData]))
           else Inr [])
      | None \<Rightarrow> Inr [])"

definition item_step ::
  "int \<Rightarrow> action_deps \<Rightarrow> Player option \<Rightarrow> string \<Rightarrow> string \<Rightarrow> jsval \<Rightarrow> pstore
   \<Rightarrow> event list \<times> pstore" where
  "item_step now deps player playerNameForLog checkType violationDetails st =
     (let item = get_prop violationDetails ''itemTypeId''
      in case player of
           Some p \<Rightarrow>
             (if pdm_present deps \<and> truthy item then
                (case (if pdm_getPlayerData deps then st (player_id p) else None) of
                   Some pData \<Rightarrow>
                     (let m = (case lastViolationDetailsMap pData of
                                 Some m0 \<Rightarrow> m0 | None \<Rightarrow> Map.empty);
                          pData' = pData\<lparr>lastViolationDetailsMap :=
                                       Some (m(checkType \<mapsto>
                                         \<lparr>itemTypeId = item, ctx_timestamp = now\<rparr>)),
                                     isDirtyForSave := True\<rparr>
                      in (trace deps
                            (''[ActionManager] Stored itemTypeId '' @ sq @ js_String item @ sq
                             @ '' for check '' @ sq @ checkType @ sq
                             @ '' in pData.lastViolationDetailsMap for '' @ playerNameForLog @ ''.''),
                          st(player_id p \<mapsto> pData')))
                 | None \<Rightarrow>
                     (trace deps
                        (''[ActionManager] Could not store itemTypeId for check '' @ sq @ checkType
                         @ sq @ '' because pData could not be retrieved for '' @ playerNameForLog
                         @ ''.''),
                      st))
              else ([], st))
         | None \<Rightarrow>
             (if truthy item then
                (trace deps
                   (''[ActionManager] Skipping storage of itemTypeId for check '' @ sq @ checkType
                    @ sq @ '' because player is null.''),
                 st)
              else ([], st)))"

text \<open>
  \<^verbatim>\<open>executeCheckAction\<close>: the error it rejects with (if any), the calls it made, and
  the moderation state it leaves. \<open>now\<close> is the reading of \<^verbatim>\<open>Date.now()\<close>.
  The profile table holds the configured profiles as own properties; a check type that
  names an inherited member instead reads a truthy value without \<^verbatim>\<open>enabled\<close>, which
  takes the disabled path.
\<close>

definition executeCheckAction ::
  "regex_host \<Rightarrow> int \<Rightarrow> Player option \<Rightarrow> string \<Rightarrow> jsval \<Rightarrow> action_deps \<Rightarrow> pstore
   \<Rightarrow> js_error option \<times> event list \<times> pstore" where
  "executeCheckAction rx now player checkType violationDetails deps st =
     (let playerNameForLog = (case player of Some p \<Rightarrow> nameTag p | None \<Rightarrow> ''System'')
      in case checkActionProfiles deps of
           None \<Rightarrow>
             (None,
              trace deps
                (''[ActionManager] checkActionProfiles not found in config. Cannot process action for ''
                 @ checkType @ ''. Context: '' @ playerNameForLog),
              st)
         | Some table \<Rightarrow>
             (case table checkType of
                None \<Rightarrow>
                  (if checkType \<in> set object_prototype_members then
                     (None,
                      trace deps
                        (''[ActionManager] Actions for checkType '' @ dq @ checkType @ dq
                         @ '' are disabled in its profile. Context: '' @ playerNameForLog),
                      st)
                   else
                     (None,
                      trace deps
                        (''[ActionManager] No action profile found for checkType: '' @ dq @ checkType
                         @ dq @ ''. Context: '' @ playerNameForLog),
                      st))
              | Some profile \<Rightarrow>
                  (if \<not> profile_enabled profile then
                     (None,
                      trace deps
                        (''[ActionManager] Actions for checkType '' @ dq @ checkType @ dq
                         @ '' are disabled in its profile. Context: '' @ playerNameForLog),
                      st)
                   else
                     (let baseReasonTemplate =
                            or_else (case profile_flag profile of
                                       Some fl \<Rightarrow> flag_reason fl | None \<Rightarrow> None)
                                    (''Triggered '' @ checkType)
                      in case formatActionMessage rx baseReasonTemplate playerNameForLog checkType
                                violationDetails of
                           Inl e \<Rightarrow> (Some e, [], st)
                         | Inr flagReasonMessage \<Rightarrow>
                             (case flag_step deps profile player playerNameForLog checkType
                                     violationDetails flagReasonMessage st of
                                (evs1, st1) \<Rightarrow>
                                  (let evs2 = log_step deps profile playerNameForLog checkType
                                                violationDetails flagReasonMessage
                                   in case notify_step rx deps profile player playerNameForLog
                                             checkType violationDetails st1 of
                                        Inl e \<Rightarrow> (Some e, evs1 @ evs2, st1)
                                      | Inr evs3 \<Rightarrow>
                                          (case item_step now deps player playerNameForLog
                                                  checkType violationDetails st1 of
                                             (evs4, st2) \<Rightarrow>
                                               (None, evs1 @ evs2 @ evs3 @ evs4, st2))))))))"

section \<open>Ban command\<close>

text \<open>
  The configuration object: the command prefix, the debug switch, and the optional alias
  and per-command settings tables (own string-keyed properties). In a settings entry,
  \<^verbatim>\<open>enabled\<close> is present only when it is a boolean.
\<close>

record command_setting =
  setting_enabled :: "bool option"

record Config =
  prefix :: string
  enableDebugLogging :: bool
  commandAliases :: "(string \<rightharpoonup> string) option"
  commandSettings :: "(string \<rightharpoonup> command_setting) option"

text \<open>
  \<^verbatim>\<open>playerUtils\<close>: \<^verbatim>\<open>debugLog\<close> and \<^verbatim>\<open>notifyAdmins\<close> may be
  missing (the code tests for them), \<^verbatim>\<open>isAdmin\<close> is the collaborator's answer.
\<close>

record PlayerUtils =
  has_debugLog :: bool
  has_notifyAdmins :: bool
  isAdmin :: "Player \<Rightarrow> bool"

record BanInfo =
  ban_reason :: string
  bannedBy :: string
  unbanTime :: int

text \<open>
  \<^verbatim>\<open>playerDataManager\<close>, over the state \<open>'st\<close> it owns: \<^verbatim>\<open>addBan\<close>
  updates the state and says whether the ban was added, \<^verbatim>\<open>getBanInfo\<close> and
  \<^verbatim>\<open>getPlayerData\<close> read it.
\<close>

record 'st PlayerDataManager =
  addBan :: "'st \<Rightarrow> Player \<Rightarrow> duration \<Rightarrow> string \<Rightarrow> string \<Rightarrow> bool \<Rightarrow> string option \<Rightarrow> bool \<times> 'st"
  getBanInfo :: "'st \<Rightarrow> Player \<Rightarrow> BanInfo option"
  getPlayerData :: "'st \<Rightarrow> string \<Rightarrow> pdata option"

record permission_levels =
  owner :: int
  admin :: int

text \<open>
  What ban.js imports or takes from the host: the permission-level enum of rankManager.js,
  \<^verbatim>\<open>getString\<close> of i18n.js, the two readings of \<^verbatim>\<open>Date.now()\<close>,
  \<^verbatim>\<open>new Date(t).toLocaleString()\<close>, and whether \<^verbatim>\<open>kick\<close> throws for a
  player.
\<close>

record ban_host =
  permissionLevels :: permission_levels
  getString :: "string \<Rightarrow> (string \<times> string) list \<Rightarrow> string"
  now_expiry :: int
  now_log :: int
  toLocaleString :: "int \<Rightarrow> string"
  kick_error :: "Player \<Rightarrow> js_error option"

text \<open>
  The \<^verbatim>\<open>dependencies\<close> argument as ban.js reads it. The three collaborators every
  caller passes are present; the four functions it takes by name are \<open>None\<close> when the
  object has no such property.
\<close>

record 'st ban_deps =
  dep_config :: Config
  dep_playerUtils :: PlayerUtils
  dep_playerDataManager :: "'st PlayerDataManager"
  dep_addLog :: bool
  dep_findPlayer :: "(string \<Rightarrow> Player option) option"
  dep_parseDuration :: "(string \<Rightarrow> duration) option"
  dep_getPlayerPermissionLevel :: "(Player \<Rightarrow> int) option"

definition not_a_function :: "string \<Rightarrow> js_error" where
  "not_a_function f = JsError ''TypeError'' (f @ '' is not a function'') None"

text \<open>\<^verbatim>\<open>text.replace(/\<section>[a-f0-9]/g, '')\<close>.\<close>

definition is_color_code :: "char \<Rightarrow> bool" where
  "is_color_code c =
     ((97 \<le> (of_char c :: nat) \<and> (of_char c :: nat) \<le> 102)
      \<or> (48 \<le> (of_char c :: nat) \<and> (of_char c :: nat) \<le> 57))"

fun strip_colors :: "string \<Rightarrow> string" where
  "strip_colors (c # d # rest) =
     (if c = sect \<and> is_color_code d then strip_colors rest else c # strip_colors (d # rest))"
| "strip_colors s = s"

text \<open>A message goes to the issuing player, or to the console when there is none.\<close>

definition tell :: "Player option \<Rightarrow> string \<Rightarrow> event \<Rightarrow> event" where
  "tell player message console_event =
     (case player of Some p \<Rightarrow> SendMessage p message | None \<Rightarrow> console_event)"

definition autoModReason :: "string option \<Rightarrow> string" where
  "autoModReason autoModCheckType =
     ''AutoMod action for '' @ or_else autoModCheckType ''violations'' @ ''.''"

definition banReason :: "string \<Rightarrow> string list \<Rightarrow> string option \<Rightarrow> string" where
  "banReason invokedBy args autoModCheckType =
     (if invokedBy = ''AutoMod'' \<and> length args \<le> 2 then autoModReason autoModCheckType
      else
        (let joined = join '' '' (drop 2 args)
         in if joined \<noteq> [] then joined
            else if invokedBy = ''AutoMod'' then autoModReason autoModCheckType
            else ''Banned by an administrator.''))"

text \<open>
  The permission hierarchy of lines 76 to 90, for a human issuer: the key of the denial
  message, if any, or the TypeError of calling a missing
  \<^verbatim>\<open>dependencies.getPlayerPermissionLevel\<close>.
\<close>

definition hierarchyCheck ::
  "ban_host \<Rightarrow> 'st ban_deps \<Rightarrow> Player \<Rightarrow> Player \<Rightarrow> js_error + string option" where
  "hierarchyCheck host deps player foundPlayer =
     (case dep_getPlayerPermissionLevel deps of
        None \<Rightarrow> Inl (not_a_function ''dependencies.getPlayerPermissionLevel'')
      | Some getPlayerPermissionLevel \<Rightarrow>
          (let targetPermissionLevel = getPlayerPermissionLevel foundPlayer;
               issuerPermissionLevel = getPlayerPermissionLevel player;
               lv = permissionLevels host
           in if targetPermissionLevel \<le> admin lv \<and> issuerPermissionLevel > owner lv
              then Inr (Some ''command.ban.permissionInsufficient'')
              else if targetPermissionLevel \<le> owner lv \<and> issuerPermissionLevel > owner lv
              then Inr (Some ''command.ban.ownerByNonOwner'')
              else if targetPermissionLevel = owner lv \<and> issuerPermissionLevel = owner lv
                      \<and> player_id player \<noteq> player_id foundPlayer
              then Inr (Some ''command.ban.ownerByOwner'')
              else Inr None))"

text \<open>Lines 104 to 164: the ban record is applied and the outcome reported.\<close>

definition applyBan ::
  "ban_host \<Rightarrow> 'st ban_deps \<Rightarrow> Player option \<Rightarrow> Player \<Rightarrow> string \<Rightarrow> duration \<Rightarrow> string
   \<Rightarrow> string \<Rightarrow> bool \<Rightarrow> string option \<Rightarrow> 'st \<Rightarrow> js_error option \<times> event list \<times> 'st" where
  "applyBan host deps player foundPlayer durationString durationMs reason invokedBy
       isAutoModAction autoModCheckType st =
     (let config = dep_config deps;
          playerUtils = dep_playerUtils deps;
          playerDataManager = dep_playerDataManager deps;
          issuer = (case player of Some p \<Rightarrow> nameTag p | None \<Rightarrow> ''System'');
          banner = (if invokedBy = ''AutoMod'' then ''AutoMod'' else issuer);
          call = AddBan foundPlayer durationMs reason banner isAutoModAction autoModCheckType
      in case addBan playerDataManager st foundPlayer durationMs reason banner isAutoModAction
                autoModCheckType of
           (banAdded, st') \<Rightarrow>
             (if banAdded then
                (let banInfo = getBanInfo playerDataManager st' foundPlayer;
                     actualReason = (case banInfo of Some b \<Rightarrow> ban_reason b | None \<Rightarrow> reason);
                     actualBannedBy = (case banInfo of Some b \<Rightarrow> bannedBy b | None \<Rightarrow> banner);
                     lastPart =
                       (case durationMs of
                          DurInfinity \<Rightarrow> getString host ''command.ban.kickMessagePermanent'' []
                        | DurMs ms \<Rightarrow>
                            getString host ''command.ban.kickMessageExpires''
                              [(''expiryDate'', toLocaleString host
                                  (case banInfo of Some b \<Rightarrow> unbanTime b
                                   | None \<Rightarrow> now_expiry host + ms))]
                        | DurNull \<Rightarrow>
                            getString host ''command.ban.kickMessageExpires''
                              [(''expiryDate'', toLocaleString host
                                  (case banInfo of Some b \<Rightarrow> unbanTime b
                                   | None \<Rightarrow> now_expiry host))]);
                     kickMessage = join [CHR 0x0A]
                       [getString host ''command.ban.kickMessagePrefix'' [],
                        getString host ''command.ban.kickMessageReason'' [(''reason'', actualReason)],
                        getString host ''command.ban.kickMessageBannedBy'' [(''bannedBy'', actualBannedBy)],
                        lastPart];
                     successMessage = getString host ''command.ban.success''
                       [(''targetName'', nameTag foundPlayer), (''durationString'', durationString),
                        (''reason'', actualReason)];
                     report =
                       [tell player successMessage (ConsoleLog (strip_colors successMessage))]
                       @ (if has_notifyAdmins playerUtils then
                            [NotifyAdmins
                               (getString host ''command.ban.adminNotification''
                                  [(''targetName'', nameTag foundPlayer), (''bannedBy'', actualBannedBy),
                                   (''durationString'', durationString), (''reason'', actualReason)])
                               player (getPlayerData playerDataManager st' (player_id foundPlayer))]
                          else [])
                       @ (if dep_addLog deps then
                            [AddLog [JObj
                               [(''timestamp'', JNum (now_log host)),
                                (''adminName'', JStr actualBannedBy),
                                (''actionType'', JStr ''ban''),
                                (''targetName'', JStr (nameTag foundPlayer)),
                                (''duration'', JStr durationString),
                                (''reason'', JStr actualReason),
                                (''isAutoMod'', JBool isAutoModAction),
                                (''checkType'', (case autoModCheckType of
                                                   Some ct \<Rightarrow> JStr ct | None \<Rightarrow> JNull))]]]
                          else [])
                 in case kick_error host foundPlayer of
                      None \<Rightarrow> (None, [call, Kick foundPlayer kickMessage] @ report, st')
                    | Some e \<Rightarrow>
                        (if enableDebugLogging config then
                           (if has_debugLog playerUtils then
                              (None,
                               [call, Kick foundPlayer kickMessage,
                                DebugLog (''Attempted to kick banned player '' @ nameTag foundPlayer
                                          @ '' but they might have already disconnected: ''
                                          @ error_toString e) (Some issuer)]
                               @ report, st')
                            else
                              (Some (not_a_function ''playerUtils.debugLog''),
                               [call, Kick foundPlayer kickMessage], st'))
                         else (None, [call, Kick foundPlayer kickMessage] @ report, st')))
              else
                (let failureMessage = getString host ''command.ban.fail''
                                        [(''targetName'', nameTag foundPlayer)]
                 in (None,
                     [call, tell player failureMessage (ConsoleWarn (strip_colors failureMessage))],
                     st'))))"

text \<open>\<^verbatim>\<open>args[1] || "perm"\<close>.\<close>

definition durationArg :: "string list \<Rightarrow> string" where
  "durationArg args = (if 1 < length args \<and> args ! 1 \<noteq> [] then args ! 1 else ''perm'')"

text \<open>Lines 93 to 102, then the ban itself: the duration is parsed and checked.\<close>

definition banWithDuration ::
  "ban_host \<Rightarrow> 'st ban_deps \<Rightarrow> Player option \<Rightarrow> Player \<Rightarrow> string \<Rightarrow> string \<Rightarrow> string
   \<Rightarrow> bool \<Rightarrow> string option \<Rightarrow> 'st \<Rightarrow> js_error option \<times> event list \<times> 'st" where
  "banWithDuration host dependencies player foundPlayer durationString reason invokedBy
       isAutoModAction autoModCheckType st =
     (case dep_parseDuration dependencies of
        None \<Rightarrow> (Some (not_a_function ''parseDuration''), [], st)
      | Some parseDuration \<Rightarrow>
          (let durationMs = parseDuration durationString
           in if durationMs = DurNull \<or> (case durationMs of DurMs ms \<Rightarrow> ms \<le> 0 | _ \<Rightarrow> False)
              then
                (let message = getString host ''command.ban.invalidDuration'' []
                 in (None,
                     [tell player message
                        (ConsoleWarn (message @ '' (Invoked by '' @ invokedBy @ '')''))],
                     st))
              else
                applyBan host dependencies player foundPlayer durationString durationMs reason
                  invokedBy isAutoModAction autoModCheckType st))"

text \<open>
  \<^verbatim>\<open>execute\<close> of ban.js. The last three arguments are optional: \<open>None\<close> is an
  omitted argument, which takes the default of the parameter list
  (\<^verbatim>\<open>"PlayerCommand"\<close>, \<^verbatim>\<open>false\<close>, \<^verbatim>\<open>null\<close>). The result is the error
  the call rejects with (if any), the calls made, and the state of the player-data manager.
\<close>

definition execute ::
  "ban_host \<Rightarrow> Player option \<Rightarrow> string list \<Rightarrow> 'st ban_deps \<Rightarrow> string option \<Rightarrow> bool option
   \<Rightarrow> string option \<Rightarrow> 'st \<Rightarrow> js_error option \<times> event list \<times> 'st" where
  "execute host player args dependencies invokedByArg isAutoModActionArg autoModCheckType st =
     (let invokedBy = (case invokedByArg of Some v \<Rightarrow> v | None \<Rightarrow> ''PlayerCommand'');
          isAutoModAction = (case isAutoModActionArg of Some b \<Rightarrow> b | None \<Rightarrow> False);
          config = dep_config dependencies
      in if length args < 1 then
           (None,
            [tell player (getString host ''command.ban.usage'' [(''prefix'', prefix config)])
               (ConsoleWarn ''Ban command called without player and insufficient args by system.'')],
            st)
         else
           (let targetPlayerName = hd args;
                durationString = durationArg args;
                reason = banReason invokedBy args autoModCheckType
            in case dep_findPlayer dependencies of
                 None \<Rightarrow> (Some (not_a_function ''findPlayer''), [], st)
               | Some findPlayer \<Rightarrow>
                   (case findPlayer targetPlayerName of
                      None \<Rightarrow>
                        (let message = getString host ''command.ban.notFoundOffline''
                                         [(''targetName'', targetPlayerName)]
                         in (None, [tell player message (ConsoleWarn message)], st))
                    | Some foundPlayer \<Rightarrow>
                        (case player of
                           None \<Rightarrow>
                             banWithDuration host dependencies player foundPlayer durationString
                               reason invokedBy isAutoModAction autoModCheckType st
                         | Some p \<Rightarrow>
                             (if player_id foundPlayer = player_id p then
                                (None, [SendMessage p (getString host ''command.ban.self'' [])], st)
                              else if invokedBy = ''PlayerCommand'' then
                                (case hierarchyCheck host dependencies p foundPlayer of
                                   Inl e \<Rightarrow> (Some e, [], st)
                                 | Inr (Some denial) \<Rightarrow>
                                     (None, [SendMessage p (getString host denial [])], st)
                                 | Inr None \<Rightarrow>
                                     banWithDuration host dependencies player foundPlayer
                                       durationString reason invokedBy isAutoModAction
                                       autoModCheckType st)
                              else
                                banWithDuration host dependencies player foundPlayer durationString
                                  reason invokedBy isAutoModAction autoModCheckType st)))))"

section \<open>Command manager\<close>

record CommandDefinition =
  cmd_name :: string
  cmd_syntax :: string
  cmd_description :: string
  permissionLevel :: int
  cmd_enabled :: bool

text \<open>
  The \<^verbatim>\<open>dependencies\<close> object handed to an executor is represented by the names of
  its properties, in the order of the object literal; each property holds the value bound
  to that name where the object is built.
\<close>

type_synonym dep_bundle = "string list"

text \<open>
  An executor is called with the issuing player, the arguments and the dependencies, on
  the state of the player-data manager. It returns the error it throws or rejects with (if
  any), the calls it made, and the state it leaves.
\<close>

type_synonym 'st executor =
  "Player \<Rightarrow> string list \<Rightarrow> dep_bundle \<Rightarrow> 'st \<Rightarrow> js_error option \<times> event list \<times> 'st"

text \<open>
  A command module of the registry: its definition, when it has one with a string name,
  and its \<^verbatim>\<open>execute\<close>, when that is a function.
\<close>

record 'st command_module =
  mod_definition :: "CommandDefinition option"
  mod_execute :: "'st executor option"

text \<open>
  The two maps of the module, keyed by the lower-cased command name. A JavaScript
  \<^verbatim>\<open>Map\<close> keeps its keys in the order of their first insertion.
\<close>

record 'st registry =
  commandDefinitionMap :: "(string \<times> CommandDefinition) list"
  commandExecutionMap :: "(string \<times> 'st executor) list"

text \<open>Lines 35 to 50: the registration loop and what it prints.\<close>

fun registerModules :: "'st command_module list \<Rightarrow> 'st registry \<Rightarrow> 'st registry \<times> event list" where
  "registerModules [] reg = (reg, [])"
| "registerModules (cmdModule # rest) reg =
     (case (mod_definition cmdModule, mod_execute cmdModule) of
        (Some d, Some ex) \<Rightarrow>
          (let cmdName = toLowerCase (cmd_name d);
               warning =
                 (if map_of (commandDefinitionMap reg) cmdName \<noteq> None
                  then [ConsoleWarn
                          (''[CommandManager] Duplicate command name detected and overwritten: ''
                           @ cmdName)]
                  else []);
               reg' = \<lparr>commandDefinitionMap = AList.update cmdName d (commandDefinitionMap reg),
                       commandExecutionMap = AList.update cmdName ex (commandExecutionMap reg)\<rparr>
           in case registerModules rest reg' of (r, evs) \<Rightarrow> (r, warning @ evs))
      | _ \<Rightarrow> registerModules rest reg)"

definition loadCommands :: "'st command_module list option \<Rightarrow> 'st registry \<times> event list" where
  "loadCommands commandModules =
     (case commandModules of
        Some modules \<Rightarrow>
          (case registerModules modules \<lparr>commandDefinitionMap = [], commandExecutionMap = []\<rparr> of
             (reg, evs) \<Rightarrow>
               (reg,
                evs @ [ConsoleLog (''[CommandManager] Dynamically loaded ''
                                   @ show_nat (length (commandDefinitionMap reg))
                                   @ '' command definitions.'')]))
      | None \<Rightarrow>
          (\<lparr>commandDefinitionMap = [], commandExecutionMap = []\<rparr>,
           [ConsoleError
              ''[CommandManager] commandModules is not an array or is undefined. No commands loaded.'']))"

text \<open>
  The names bound at module level in commandManager.js: its imports (lines 7 to 19) and
  its own declarations.
\<close>

definition module_bindings :: "string list" where
  "module_bindings =
     [''mc'', ''configModule'', ''permissionLevels'', ''getPlayerPermissionLevel'', ''findPlayer'',
      ''parseDuration'', ''addLog'', ''reportManager'', ''ActionFormData'', ''MessageFormData'',
      ''ModalFormData'', ''ItemComponentTypes'', ''commandModules'', ''commandDefinitionMap'',
      ''commandExecutionMap'', ''handleChatCommand'']"

text \<open>The parameters and local declarations of \<^verbatim>\<open>handleChatCommand\<close>.\<close>

definition handler_bindings :: "string list" where
  "handler_bindings =
     [''eventData'', ''playerDataManager'', ''uiManager'', ''config'', ''playerUtils'', ''player'',
      ''message'', ''args'', ''commandNameInput'', ''senderPDataForLog'', ''aliasTarget'',
      ''finalCommandName'', ''commandDef'', ''commandExecute'', ''isEffectivelyEnabled'',
      ''userPermissionLevel'', ''pDataForAdminLog'', ''dependencies'']"

text \<open>
  The object literal of lines 133 to 149: each property with the identifiers its value
  expression reads. All are shorthand properties except \<^verbatim>\<open>configModule\<close> and
  \<^verbatim>\<open>allCommands\<close>.
\<close>

definition dependencies_literal :: "(string \<times> string list) list" where
  "dependencies_literal =
     [(''mc'', [''mc'']),
      (''playerDataManager'', [''playerDataManager'']),
      (''uiManager'', [''uiManager'']),
      (''config'', [''config'']),
      (''configModule'', [''configModule'']),
      (''playerUtils'', [''playerUtils'']),
      (''logManager'', [''logManager'']),
      (''permissionLevels'', [''permissionLevels'']),
      (''ActionFormData'', [''ActionFormData'']),
      (''MessageFormData'', [''MessageFormData'']),
      (''ModalFormData'', [''ModalFormData'']),
      (''reportManager'', [''reportManager'']),
      (''allCommands'', [''Array'', ''commandDefinitionMap'']),
      (''commandDefinitionMap'', [''commandDefinitionMap'']),
      (''ItemComponentTypes'', [''ItemComponentTypes''])]"

text \<open>
  Evaluating an object literal in a scope: the properties are evaluated in order, and
  reading an identifier that has no binding throws a ReferenceError.
\<close>

definition not_defined :: "string \<Rightarrow> js_error" where
  "not_defined x = JsError ''ReferenceError'' (x @ '' is not defined'') None"

fun buildObject :: "string list \<Rightarrow> (string \<times> string list) list \<Rightarrow> js_error + dep_bundle" where
  "buildObject scope [] = Inr []"
| "buildObject scope ((key, reads) # rest) =
     (case filter (\<lambda>x. x \<notin> set scope) reads of
        x # _ \<Rightarrow> Inl (not_defined x)
      | [] \<Rightarrow> (case buildObject scope rest of Inl e \<Rightarrow> Inl e | Inr keys \<Rightarrow> Inr (key # keys)))"

text \<open>
  What commandManager.js takes from the host and from the modules it imports: the names
  bound on the global object, the permission-level enum, \<^verbatim>\<open>getPlayerPermissionLevel\<close>
  of playerUtils.js, and \<^verbatim>\<open>new Date().toISOString()\<close>.
\<close>

record cmd_host =
  global_names :: "string list"
  cm_permissionLevels :: permission_levels
  cm_getPlayerPermissionLevel :: "Player \<Rightarrow> int"
  iso_timestamp :: string

text \<open>Lines 64 and 65: the command name (undefined when there is no token) and the arguments.\<close>

definition parseCommand :: "Config \<Rightarrow> string \<Rightarrow> string option \<times> string list" where
  "parseCommand config message =
     (case splitWs (trim (drop (length (prefix config)) message)) of
        [] \<Rightarrow> (None, [])
      | first # rest \<Rightarrow> (Some (toLowerCase first), rest))"

text \<open>
  Line 78 reads \<^verbatim>\<open>config.commandAliases?.[commandNameInput]\<close>, a property read
  that follows the prototype chain. The alias table is an ordinary object whose own
  properties are the configured aliases (strings); a name that is not an own property but
  is a member of \<^verbatim>\<open>Object.prototype\<close> reads as that member, a function or object
  that is truthy and is not a string.
\<close>

datatype alias_value = AliasUndefined | AliasString string | AliasInherited string

definition readAlias :: "Config \<Rightarrow> string \<Rightarrow> alias_value" where
  "readAlias config commandNameInput =
     (case commandAliases config of
        None \<Rightarrow> AliasUndefined
      | Some aliases \<Rightarrow>
          (case aliases commandNameInput of
             Some target \<Rightarrow> AliasString target
           | None \<Rightarrow>
               (if commandNameInput \<in> set object_prototype_members
                then AliasInherited commandNameInput else AliasUndefined)))"

text \<open>
  Line 79: \<^verbatim>\<open>aliasTarget ? aliasTarget.toLowerCase() : commandNameInput\<close>. A truthy
  alias target that is not a string has no \<^verbatim>\<open>toLowerCase\<close>, and the call throws a
  TypeError.
\<close>

definition finalCommandName :: "Config \<Rightarrow> string \<Rightarrow> js_error + string" where
  "finalCommandName config commandNameInput =
     (case readAlias config commandNameInput of
        AliasUndefined \<Rightarrow> Inr commandNameInput
      | AliasString target \<Rightarrow>
          (if target \<noteq> [] then Inr (toLowerCase target) else Inr commandNameInput)
      | AliasInherited member \<Rightarrow> Inl (not_a_function ''aliasTarget.toLowerCase''))"

text \<open>Whether \<^verbatim>\<open>aliasTarget\<close> is truthy once line 79 has passed: a non-empty string.\<close>

definition aliasResolved :: "Config \<Rightarrow> string \<Rightarrow> bool" where
  "aliasResolved config commandNameInput =
     (case readAlias config commandNameInput of
        AliasString target \<Rightarrow> target \<noteq> []
      | _ \<Rightarrow> False)"

text \<open>The message of line 89, for a name that is not registered.\<close>

definition unknownCommandMessage :: "Config \<Rightarrow> string \<Rightarrow> string" where
  "unknownCommandMessage config name =
     sect # ''cUnknown command: '' @ prefix config @ name @ sect # ''r. Type '' @ prefix config
     @ ''help for assistance.''"

text \<open>The message of line 100, for a command that is disabled.\<close>

definition disabledCommandMessage :: "Config \<Rightarrow> string \<Rightarrow> string" where
  "disabledCommandMessage config name =
     sect # ''cUnknown command: '' @ prefix config @ name @ sect # ''r. Type '' @ prefix config
     @ ''help for assistance.''"

text \<open>
  Lines 94 to 97: the override of the settings table, when it is a boolean, wins. The
  table holds the configured entries; a member inherited from \<^verbatim>\<open>Object.prototype\<close>
  has no boolean \<^verbatim>\<open>enabled\<close>, so it reads like a missing entry.
\<close>

definition isEffectivelyEnabled :: "Config \<Rightarrow> string \<Rightarrow> CommandDefinition \<Rightarrow> bool" where
  "isEffectivelyEnabled config name commandDef =
     (case commandSettings config of
        None \<Rightarrow> cmd_enabled commandDef
      | Some settings \<Rightarrow>
          (case settings name of
             None \<Rightarrow> cmd_enabled commandDef
           | Some setting \<Rightarrow>
               (case setting_enabled setting of
                  Some b \<Rightarrow> b
                | None \<Rightarrow> cmd_enabled commandDef)))"

text \<open>\<^verbatim>\<open>if (playerUtils.debugLog) playerUtils.debugLog(message, context)\<close>.\<close>

definition debug :: "PlayerUtils \<Rightarrow> string \<Rightarrow> string option \<Rightarrow> event list" where
  "debug playerUtils message context =
     (if has_debugLog playerUtils then [DebugLog message context] else [])"

text \<open>
  The name tag of the sender when the player data says the sender is watched, else null.
\<close>

definition watchedContext :: "pdata option \<Rightarrow> Player \<Rightarrow> string option" where
  "watchedContext senderPDataForLog player =
     (case senderPDataForLog of
        Some pd \<Rightarrow> (if isWatched pd then Some (nameTag player) else None)
      | None \<Rightarrow> None)"

text \<open>Line 69: the trace of the attempt.\<close>

definition attemptTrace ::
  "PlayerUtils \<Rightarrow> Player \<Rightarrow> string option \<Rightarrow> string list \<Rightarrow> string option \<Rightarrow> event list" where
  "attemptTrace playerUtils player commandNameInput args watched =
     debug playerUtils
       (''Player '' @ nameTag player @ '' issued command attempt: '' @ dq
        @ or_else commandNameInput [] @ dq @ '' with args: ['' @ join '', '' args @ '']'')
       watched"

text \<open>Lines 81 to 83: the trace of a resolved alias.\<close>

definition aliasTrace :: "PlayerUtils \<Rightarrow> Config \<Rightarrow> Player \<Rightarrow> string \<Rightarrow> string \<Rightarrow> event list" where
  "aliasTrace playerUtils config player commandNameInput name =
     (if aliasResolved config commandNameInput
      then debug playerUtils
             (''Command alias '' @ sq @ commandNameInput @ sq @ '' resolved to '' @ sq
              @ name @ sq @ ''.'') (Some (nameTag player))
      else [])"

text \<open>
  Lines 151 to 164: the executor is awaited inside \<^verbatim>\<open>try\<close>; an error it throws is
  reported to the player, to the console, to the debug trace and to \<^verbatim>\<open>addLog\<close>.
  After a successful run the sender's player-data object is read again for the trace; the
  manager updates these objects in place, so it is the object the state holds for the id.
\<close>

definition invokeExecutor ::
  "'st PlayerDataManager \<Rightarrow> PlayerUtils \<Rightarrow> 'st executor \<Rightarrow> Player \<Rightarrow> string list \<Rightarrow> dep_bundle
   \<Rightarrow> string \<Rightarrow> bool \<Rightarrow> 'st \<Rightarrow> event list \<times> 'st" where
  "invokeExecutor playerDataManager playerUtils commandExecute player args dependencies name
       hasPData st =
     (case commandExecute player args dependencies st of
        (None, evs, st') \<Rightarrow>
          (evs @ debug playerUtils
                   (''Successfully executed command '' @ sq @ name @ sq @ '' for '' @ nameTag player
                    @ ''.'')
                   (if hasPData
                    then watchedContext (getPlayerData playerDataManager st' (player_id player)) player
                    else None),
           st')
      | (Some error, evs, st') \<Rightarrow>
          (evs
           @ [SendMessage player
                (sect # ''cAn error occurred while executing command '' @ sq @ name @ sq
                 @ ''. Please report this.''),
              ConsoleError
                (''[CommandManager] Error executing command '' @ name @ '' for player ''
                 @ nameTag player @ '': '' @ stack_or_error error)]
           @ debug playerUtils
               (''Error executing command '' @ name @ '' for '' @ nameTag player @ '': ''
                @ error_toString error) None
           @ [AddLog [JStr ''command_error'',
                      JStr (''Cmd: '' @ name @ '', Player: '' @ nameTag player @ '', Args: [''
                            @ join '', '' args @ ''], Error: '' @ err_message error)]],
           st'))"

text \<open>Lines 120 to 125: the admin command log on the console.\<close>

definition adminCommandLog :: "cmd_host \<Rightarrow> Player \<Rightarrow> string \<Rightarrow> int \<Rightarrow> event list" where
  "adminCommandLog host player message userPermissionLevel =
     (if userPermissionLevel \<le> admin (cm_permissionLevels host)
      then [ConsoleWarn (''[AdminCommandLog] '' @ iso_timestamp host @ '' - Player: ''
                         @ player_name player @ '' - Command: '' @ message)]
      else [])"

text \<open>
  Lines 118 to 164, after the permission check has passed: the admin command log, the echo
  for a watched admin, the dependencies object, and the call of the executor. The result
  is the error \<^verbatim>\<open>handleChatCommand\<close> rejects with (if any), the calls made, the value
  of \<^verbatim>\<open>eventData.cancel\<close>, and the state.
\<close>

definition dispatchCommand ::
  "cmd_host \<Rightarrow> 'st PlayerDataManager \<Rightarrow> PlayerUtils \<Rightarrow> 'st executor \<Rightarrow> Player \<Rightarrow> string
   \<Rightarrow> string list \<Rightarrow> string \<Rightarrow> int \<Rightarrow> bool \<Rightarrow> 'st
   \<Rightarrow> js_error option \<times> event list \<times> bool \<times> 'st" where
  "dispatchCommand host playerDataManager playerUtils commandExecute player message args name
       userPermissionLevel hasPData st =
     (let adminLog = adminCommandLog host player message userPermissionLevel;
          pDataForAdminLog = getPlayerData playerDataManager st (player_id player);
          echoed = (case pDataForAdminLog of
                      Some pd \<Rightarrow> isWatched pd \<and> isAdmin playerUtils player
                    | None \<Rightarrow> False)
      in if echoed \<and> \<not> has_debugLog playerUtils then
           (Some (not_a_function ''playerUtils.debugLog''), adminLog, True, st)
         else
           (let echo =
                  (if echoed
                   then [DebugLog (''Watched admin '' @ nameTag player @ '' is executing command: ''
                                   @ message) (Some (nameTag player))]
                   else [])
            in case buildObject (handler_bindings @ module_bindings @ global_names host)
                      dependencies_literal of
                 Inl e \<Rightarrow> (Some e, adminLog @ echo, True, st)
               | Inr dependencies \<Rightarrow>
                   (case invokeExecutor playerDataManager playerUtils commandExecute player args
                           dependencies name hasPData st of
                      (evs, st') \<Rightarrow> (None, adminLog @ echo @ evs, True, st'))))"

text \<open>
  Lines 85 to 164, once the final command name is known: the lookup, the enablement and
  permission checks, and the dispatch. \<open>attempt\<close> and \<open>resolved\<close> are the traces
  already written.
\<close>

definition routeCommand ::
  "cmd_host \<Rightarrow> 'st registry \<Rightarrow> Player \<Rightarrow> string \<Rightarrow> 'st PlayerDataManager \<Rightarrow> Config
   \<Rightarrow> PlayerUtils \<Rightarrow> string list \<Rightarrow> string \<Rightarrow> event list \<Rightarrow> bool \<Rightarrow> 'st
   \<Rightarrow> js_error option \<times> event list \<times> bool \<times> 'st" where
  "routeCommand host reg player message playerDataManager config playerUtils args name traces
       hasPData st =
     (case (map_of (commandDefinitionMap reg) name, map_of (commandExecutionMap reg) name) of
        (Some commandDef, Some commandExecute) \<Rightarrow>
          (if \<not> isEffectivelyEnabled config name commandDef then
             (None,
              traces
              @ [SendMessage player (disabledCommandMessage config name)]
              @ debug playerUtils
                  (''Command '' @ sq @ name @ sq @ '' is disabled. Access denied for ''
                   @ nameTag player @ ''.'') (Some (nameTag player)),
              True, st)
           else
             (let userPermissionLevel = cm_getPlayerPermissionLevel host player
              in if userPermissionLevel > permissionLevel commandDef then
                   (None,
                    traces
                    @ [WarnPlayer player ''You do not have permission to use this command.'']
                    @ debug playerUtils
                        (''Command '' @ sq @ cmd_name commandDef @ sq @ '' denied for ''
                         @ nameTag player
                         @ '' due to insufficient permissions. Required: ''
                         @ show_int (permissionLevel commandDef) @ '', Player has: ''
                         @ show_int userPermissionLevel) (Some (nameTag player)),
                    True, st)
                 else
                   (case dispatchCommand host playerDataManager playerUtils commandExecute
                           player message args name userPermissionLevel hasPData st of
                      (err, evs, cancel, st') \<Rightarrow> (err, traces @ evs, cancel, st'))))
      | _ \<Rightarrow>
          (None, traces @ [SendMessage player (unknownCommandMessage config name)], True, st))"

text \<open>
  \<^verbatim>\<open>handleChatCommand\<close>, for an event whose \<^verbatim>\<open>cancel\<close> is false on entry.
  When line 79 throws, nothing has been sent to the player and \<^verbatim>\<open>cancel\<close> has not
  been set.
\<close>

definition handleChatCommand ::
  "cmd_host \<Rightarrow> 'st registry \<Rightarrow> Player \<Rightarrow> string \<Rightarrow> 'st PlayerDataManager \<Rightarrow> Config
   \<Rightarrow> PlayerUtils \<Rightarrow> 'st \<Rightarrow> js_error option \<times> event list \<times> bool \<times> 'st" where
  "handleChatCommand host reg player message playerDataManager config playerUtils st =
     (case parseCommand config message of
        (commandNameInput, args) \<Rightarrow>
          (let senderPDataForLog = getPlayerData playerDataManager st (player_id player);
               attempt = attemptTrace playerUtils player commandNameInput args
                           (watchedContext senderPDataForLog player)
           in if or_else commandNameInput [] = [] then
                (None,
                 attempt
                 @ [SendMessage player
                      (sect # ''cPlease enter a command after the prefix. Type '' @ prefix config
                       @ ''help for a list of commands.'')],
                 True, st)
              else
                (let input = or_else commandNameInput []
                 in case finalCommandName config input of
                      Inl e \<Rightarrow> (Some e, attempt, False, st)
                    | Inr name \<Rightarrow>
                        routeCommand host reg player message playerDataManager config playerUtils
                          args name (attempt @ aliasTrace playerUtils config player input name)
                          (senderPDataForLog \<noteq> None) st)))"

text \<open>
  How the gateway's call reaches ban.js: \<^verbatim>\<open>commandExecute(player, args, dependencies)\<close>
  leaves the last three parameters at their defaults, and ban.js takes
  \<^verbatim>\<open>addLog\<close>, \<^verbatim>\<open>findPlayer\<close>, \<^verbatim>\<open>parseDuration\<close> and
  \<^verbatim>\<open>getPlayerPermissionLevel\<close> from the object by name, so each is undefined when the
  object has no property of that name. The values are those the names are bound to where
  the object is built.
\<close>

record 'st scope_values =
  sv_config :: Config
  sv_playerUtils :: PlayerUtils
  sv_playerDataManager :: "'st PlayerDataManager"
  sv_findPlayer :: "string \<Rightarrow> Player option"
  sv_parseDuration :: "string \<Rightarrow> duration"
  sv_getPlayerPermissionLevel :: "Player \<Rightarrow> int"

definition banDependencies :: "'st scope_values \<Rightarrow> dep_bundle \<Rightarrow> 'st ban_deps" where
  "banDependencies vals keys =
     \<lparr>dep_config = sv_config vals,
      dep_playerUtils = sv_playerUtils vals,
      dep_playerDataManager = sv_playerDataManager vals,
      dep_addLog = (''addLog'' \<in> set keys),
      dep_findPlayer = (if ''findPlayer'' \<in> set keys then Some (sv_findPlayer vals) else None),
      dep_parseDuration =
        (if ''parseDuration'' \<in> set keys then Some (sv_parseDuration vals) else None),
      dep_getPlayerPermissionLevel =
        (if ''getPlayerPermissionLevel'' \<in> set keys
         then Some (sv_getPlayerPermissionLevel vals) else None)\<rparr>"

definition banExecutor :: "ban_host \<Rightarrow> 'st scope_values \<Rightarrow> 'st executor" where
  "banExecutor host vals player args dependencies st =
     execute host (Some player) args (banDependencies vals dependencies) None None None st"

text \<open>The messages a trace of calls sends to players through \<^verbatim>\<open>sendMessage\<close>.\<close>

fun messages_sent :: "event list \<Rightarrow> (Player \<times> string) list" where
  "messages_sent [] = []"
| "messages_sent (SendMessage p m # evs) = (p, m) # messages_sent evs"
| "messages_sent (e # evs) = messages_sent evs"

section \<open>Example inputs\<close>

definition alice :: Player where
  "alice = \<lparr>player_id = ''-4294967295'', nameTag = ''Alice'', player_name = ''Alice''\<rparr>"

definition bob :: Player where
  "bob = \<lparr>player_id = ''-8589934591'', nameTag = ''Bob'', player_name = ''Bob''\<rparr>"

definition clock0 :: report_clock where
  "clock0 = \<lparr>id_now = 1700000000000, random36 = ''0.4fzyo82mvyr'', entry_now = 1700000000000\<rparr>"

definition full_store_host :: world_host where
  "full_store_host =
     \<lparr>json_stringify = (\<lambda>rs. Inr ''[]''),
      json_parse = (\<lambda>raw. Inr None),
      setDynamicProperty = (\<lambda>w k v. Inl (JsError ''Error'' ''Failed to set property'' None))\<rparr>"

definition state0 :: report_state where
  "state0 =
     \<lparr>reportsInMemory = replicate 100 (newReport clock0 bob alice ''old''),
      reportsAreDirty = False, world = Map.empty, console = []\<rparr>"

definition ban_host0 :: ban_host where
  "ban_host0 =
     \<lparr>permissionLevels = \<lparr>owner = 0, admin = 1\<rparr>,
      getString = (\<lambda>key params. key @ concat (map (\<lambda>kv. '' '' @ fst kv @ ''='' @ snd kv) params)),
      now_expiry = 1700000000000,
      now_log = 1700000000001,
      toLocaleString = show_int,
      kick_error = (\<lambda>p. None)\<rparr>"

text \<open>A player-data manager that keeps the ban records by player id.\<close>

definition pdm0 :: "(string \<times> BanInfo) list PlayerDataManager" where
  "pdm0 =
     \<lparr>addBan = (\<lambda>st p d reason by auto ct.
                  (True, (player_id p,
                          \<lparr>ban_reason = reason, bannedBy = by,
                           unbanTime = (case d of DurMs ms \<Rightarrow> 1700000000000 + ms | _ \<Rightarrow> 0)\<rparr>) # st)),
      getBanInfo = (\<lambda>st p. map_of st (player_id p)),
      getPlayerData = (\<lambda>st i. None)\<rparr>"

definition carol :: Player where
  "carol = \<lparr>player_id = ''-12884901887'', nameTag = ''Carol'', player_name = ''Carol''\<rparr>"

text \<open>Alice is an owner (level 0), Bob an admin (level 1), everyone else a member.\<close>

definition ban_deps0 :: "(string \<times> BanInfo) list ban_deps" where
  "ban_deps0 =
     \<lparr>dep_config = \<lparr>prefix = ''!'', enableDebugLogging = False, commandAliases = None,
                     commandSettings = None\<rparr>,
      dep_playerUtils = \<lparr>has_debugLog = True, has_notifyAdmins = True, isAdmin = (\<lambda>p. False)\<rparr>,
      dep_playerDataManager = pdm0,
      dep_addLog = True,
      dep_findPlayer = Some (\<lambda>n. if n = ''Alice'' then Some alice
                                 else if n = ''Bob'' then Some bob
                                 else if n = ''Carol'' then Some carol else None),
      dep_parseDuration = Some (\<lambda>d. if d = ''perm'' then DurInfinity
                                    else if d = ''7d'' then DurMs 604800000 else DurNull),
      dep_getPlayerPermissionLevel =
        Some (\<lambda>p. if player_id p = player_id alice then 0
                   else if player_id p = player_id bob then 1 else 1024)\<rparr>"

definition fly_profile :: "bool \<Rightarrow> ActionProfile" where
  "fly_profile en =
     \<lparr>profile_enabled = en,
      profile_flag = Some \<lparr>flag_type = Some ''fly'', increment = Some 2,
                           flag_reason = Some ''Flying detected''\<rparr>,
      profile_log = Some \<lparr>actionType = None, detailsPrefix = Some ''Fly: '',
                          includeViolationDetails = None\<rparr>,
      profile_notifyAdmins = Some \<lparr>notify_message = Some ''Fly alert''\<rparr>\<rparr>"

definition action_deps0 :: "bool \<Rightarrow> action_deps" where
  "action_deps0 en =
     \<lparr>checkActionProfiles = Some [''fly_hover'' \<mapsto> fly_profile en],
      pu_debugLog = True, pu_notifyAdmins = True, pdm_present = True,
      pdm_addFlag = Some (\<lambda>st p t r d. st), pdm_getPlayerData = True, lm_addLog = True\<rparr>"

definition no_match_regex :: regex_host where
  "no_match_regex = (\<lambda>source subject replacement. Inr subject)"

definition level0 :: "Player \<Rightarrow> int" where
  "level0 p = (if player_id p = player_id alice then 0
               else if player_id p = player_id bob then 1 else 1024)"

definition cmd_host0 :: cmd_host where
  "cmd_host0 =
     \<lparr>global_names = [''globalThis'', ''console'', ''Object'', ''Array'', ''Map'', ''Date'', ''Math'',
                       ''JSON'', ''String'', ''RegExp'', ''Promise''],
      cm_permissionLevels = \<lparr>owner = 0, admin = 1\<rparr>,
      cm_getPlayerPermissionLevel = level0,
      iso_timestamp = ''2023-11-14T22:13:20.000Z''\<rparr>"

definition config0 :: Config where
  "config0 =
     \<lparr>prefix = ''!'', enableDebugLogging = False,
      commandAliases = Some [''b'' \<mapsto> ''ban''],
      commandSettings = Some [''kick'' \<mapsto> \<lparr>setting_enabled = Some False\<rparr>]\<rparr>"

definition utils0 :: PlayerUtils where
  "utils0 = \<lparr>has_debugLog = True, has_notifyAdmins = True, isAdmin = (\<lambda>p. level0 p \<le> 1)\<rparr>"

definition vals0 :: "(string \<times> BanInfo) list scope_values" where
  "vals0 =
     \<lparr>sv_config = config0, sv_playerUtils = utils0, sv_playerDataManager = pdm0,
      sv_findPlayer = (\<lambda>n. if n = ''Alice'' then Some alice
                            else if n = ''Bob'' then Some bob
                            else if n = ''Carol'' then Some carol else None),
      sv_parseDuration = (\<lambda>d. if d = ''perm'' then DurInfinity
                               else if d = ''7d'' then DurMs 604800000 else DurNull),
      sv_getPlayerPermissionLevel = level0\<rparr>"

definition ban_definition :: CommandDefinition where
  "ban_definition =
     \<lparr>cmd_name = ''ban'', cmd_syntax = ''!ban <playername> [duration] [reason]'',
      cmd_description = ''Bans a player for a specified duration (e.g., 7d, 2h, perm).'',
      permissionLevel = 1, cmd_enabled = True\<rparr>"

definition ban_module :: "(string \<times> BanInfo) list command_module" where
  "ban_module =
     \<lparr>mod_definition = Some ban_definition, mod_execute = Some (banExecutor ban_host0 vals0)\<rparr>"

text \<open>A second command, enabled in its definition and disabled by the settings of \<open>config0\<close>.\<close>

definition kick_definition :: CommandDefinition where
  "kick_definition =
     \<lparr>cmd_name = ''Kick'', cmd_syntax = ''!kick <playername> [reason]'',
      cmd_description = ''Kicks a player.'', permissionLevel = 1, cmd_enabled = True\<rparr>"

definition kick_module :: "(string \<times> BanInfo) list command_module" where
  "kick_module =
     \<lparr>mod_definition = Some kick_definition,
      mod_execute = Some (\<lambda>p args deps st. (None, [ConsoleLog (''kick '' @ join '' '' args)], st))\<rparr>"

definition registry0 :: "(string \<times> BanInfo) list registry" where
  "registry0 = fst (loadCommands (Some [ban_module, kick_module]))"

definition registry1 :: "(string \<times> BanInfo) list registry" where
  "registry1 = fst (loadCommands (Some [ban_module]))"

text \<open>A command registered under the name \<open>constructor\<close> and disabled in its definition.\<close>

definition hidden_definition :: CommandDefinition where
  "hidden_definition =
     \<lparr>cmd_name = ''constructor'', cmd_syntax = ''!constructor'',
      cmd_description = ''A disabled command.'', permissionLevel = 1024, cmd_enabled = False\<rparr>"

definition hidden_module :: "(string \<times> BanInfo) list command_module" where
  "hidden_module =
     \<lparr>mod_definition = Some hidden_definition,
      mod_execute = Some (\<lambda>p args deps st. (None, [ConsoleLog ''constructor''], st))\<rparr>"

definition registry2 :: "(string \<times> BanInfo) list registry" where
  "registry2 = fst (loadCommands (Some [ban_module, hidden_module]))"

section \<open>Properties of the message formatter\<close>

lemma length_own_properties: "length (own_properties ps) = length ps"
  by (simp add: own_properties_def sum_length_filter_compl)

lemma own_properties_no_index:
  "\<forall>p\<in>set ps. \<not> is_array_index (fst p) \<Longrightarrow> own_properties ps = ps"
  by (simp add: own_properties_def)

lemma formatViolationDetails_object:
  "ps \<noteq> [] \<Longrightarrow>
   formatViolationDetails (JObj ps) = join '', '' (map render_entry (own_properties ps))"
  by (simp add: formatViolationDetails_def object_keys_def length_own_properties)

lemmas format_eval =
  object_keys_def own_properties_def is_array_index_def is_digit_def digits_value_def
  render_entry_def show_int_def digit_char_def char_of_def bit_Suc_0_iff

text \<open>
  C8, as stated: a non-empty details object is rendered in the order its keys were
  inserted. It fails for a key that is an array index: the object built by inserting
  \<open>b\<close> and then \<open>1\<close> is rendered with \<open>1\<close> first.
\<close>

theorem formatViolationDetails_insertion_order_counterexample:
  "formatViolationDetails (JObj [(''b'', JNum 1), (''1'', JNum 2)])
     \<noteq> join '', '' (map render_entry [(''b'', JNum 1), (''1'', JNum 2)])"
  by (simp add: formatViolationDetails_def format_eval)

text \<open>
  C8, amended: \<^verbatim>\<open>formatViolationDetails\<close> returns \<open>N/A\<close> when the input is null,
  is not an object, or has no keys. For a non-empty details object it returns the entries
  rendered as \<open>key: value\<close> and joined by a comma and a space, in the order of the
  object's own keys: array-index keys first in ascending numeric order, then the other
  keys in insertion order. When no key is an array index this is the insertion order.
\<close>

theorem formatViolationDetails_own_key_order:
  "(v = JNull \<or> typeof v \<noteq> ''object'' \<or> object_keys v = []
      \<longrightarrow> formatViolationDetails v = ''N/A'')
   \<and> (ps \<noteq> [] \<longrightarrow>
        formatViolationDetails (JObj ps) = join '', '' (map render_entry (own_properties ps)))
   \<and> (ps \<noteq> [] \<and> (\<forall>p\<in>set ps. \<not> is_array_index (fst p)) \<longrightarrow>
        formatViolationDetails (JObj ps) = join '', '' (map render_entry ps))"
proof (intro conjI impI)
  assume "v = JNull \<or> typeof v \<noteq> ''object'' \<or> object_keys v = []"
  then show "formatViolationDetails v = ''N/A''"
    by (auto simp: formatViolationDetails_def)
next
  assume "ps \<noteq> []"
  then show "formatViolationDetails (JObj ps) = join '', '' (map render_entry (own_properties ps))"
    by (rule formatViolationDetails_object)
next
  assume "ps \<noteq> [] \<and> (\<forall>p\<in>set ps. \<not> is_array_index (fst p))"
  then show "formatViolationDetails (JObj ps) = join '', '' (map render_entry ps)"
    by (simp add: formatViolationDetails_object own_properties_no_index)
qed

theorem formatViolationDetails_own_key_order_witness:
  "formatViolationDetails JNull = ''N/A''
   \<and> formatViolationDetails (JNum 7) = ''N/A''
   \<and> formatViolationDetails (JObj []) = ''N/A''
   \<and> formatViolationDetails (JObj [(''value'', JNum 5), (''threshold'', JNum 2)])
       = ''value: 5, threshold: 2''
   \<and> formatViolationDetails (JObj [(''b'', JNum 1), (''1'', JNum 2)]) = ''1: 2, b: 1''"
  using formatViolationDetails_own_key_order
          [of JNull "[(''value'', JNum 5), (''threshold'', JNum 2)]"]
        formatViolationDetails_own_key_order
          [of "JNum 7" "[(''b'', JNum 1), (''1'', JNum 2)]"]
        formatViolationDetails_own_key_order
          [of "JObj []" "[(''b'', JNum 1), (''1'', JNum 2)]"]
  by (simp add: format_eval)

section \<open>Properties of the report manager\<close>

lemma take_cap_append: "take n (xs @ take n ys) = take n (xs @ ys)"
  by (simp add: min_def)

lemma addReport_valid:
  assumes "valid_report_args (Some rp) (Some tp) reason"
  shows "fst (addReport clk (Some rp) (Some tp) reason s) = Some (newReport clk rp tp reason)"
    and "reportsInMemory (snd (addReport clk (Some rp) (Some tp) reason s))
         = take maxReportsCount (newReport clk rp tp reason # reportsInMemory s)"
    and "reportsAreDirty (snd (addReport clk (Some rp) (Some tp) reason s))"
  using assms by (simp_all add: addReport_def Let_def)

lemma valid_call_step:
  assumes "valid_call c"
  obtains clk rp tp reason where "c = (clk, Some rp, Some tp, reason)"
    and "valid_report_args (Some rp) (Some tp) reason"
  using assms by (cases c) (auto simp: valid_call_def valid_report_args_def split: option.splits)

lemma addReport_calls_Cons:
  "addReport_calls (c # cs) s =
   addReport_calls cs (case c of (clk, rp, tp, reason) \<Rightarrow> snd (addReport clk rp tp reason s))"
  by (simp add: addReport_calls_def)

lemma addReport_calls_reports:
  "\<forall>c\<in>set calls. valid_call c \<Longrightarrow>
   reportsInMemory (addReport_calls calls s)
     = (if calls = [] then reportsInMemory s
        else take maxReportsCount (rev (List.map_filter call_entry calls) @ reportsInMemory s))"
proof (induction calls arbitrary: s)
  case Nil
  then show ?case by (simp add: addReport_calls_def)
next
  case (Cons c cs)
  from Cons.prems have vc: "valid_call c" and vcs: "\<forall>c\<in>set cs. valid_call c" by simp_all
  from vc obtain clk rp tp reason where c: "c = (clk, Some rp, Some tp, reason)"
    and v: "valid_report_args (Some rp) (Some tp) reason" by (rule valid_call_step)
  let ?s' = "snd (addReport clk (Some rp) (Some tp) reason s)"
  have e: "List.map_filter call_entry (c # cs)
             = newReport clk rp tp reason # List.map_filter call_entry cs"
    by (simp add: c call_entry_def List.map_filter_simps)
  have s': "reportsInMemory ?s' = take maxReportsCount (newReport clk rp tp reason # reportsInMemory s)"
    using v by (rule addReport_valid)
  have step: "addReport_calls (c # cs) s = addReport_calls cs ?s'"
    by (simp add: addReport_calls_Cons c)
  show ?case
  proof (cases "cs = []")
    case True
    then show ?thesis using step s' e by (simp add: addReport_calls_def List.map_filter_simps)
  next
    case False
    then have "reportsInMemory (addReport_calls cs ?s')
       = take maxReportsCount (rev (List.map_filter call_entry cs) @ reportsInMemory ?s')"
      using Cons.IH [OF vcs, of ?s'] by simp
    also have "\<dots> = take maxReportsCount
        (rev (List.map_filter call_entry cs) @ newReport clk rp tp reason # reportsInMemory s)"
      unfolding s' by (rule take_cap_append)
    finally show ?thesis using step e by simp
  qed
qed

lemma length_map_filter_valid:
  "\<forall>c\<in>set calls. valid_call c \<Longrightarrow> length (List.map_filter call_entry calls) = length calls"
proof (induction calls)
  case Nil
  then show ?case by (simp add: List.map_filter_simps)
next
  case (Cons c cs)
  from Cons.prems have "valid_call c" by simp
  then obtain clk rp tp reason where "c = (clk, Some rp, Some tp, reason)"
    by (rule valid_call_step)
  then show ?case using Cons by (simp add: call_entry_def List.map_filter_simps)
qed

text \<open>
  C5: from a collection of at most 100 reports, every sequence of valid
  \<^verbatim>\<open>addReport\<close> calls leaves the new entries in front, newest first, followed by the
  old ones, cut to the first 100; the length stays at most 100 and is exactly 100 once the
  old and new entries together reach 100. Each single call returns its entry and puts it
  in front before the cut.
\<close>

theorem addReport_calls_capped_newest_first:
  assumes "length (reportsInMemory s) \<le> 100"
    and "\<forall>c\<in>set calls. valid_call c"
  shows "reportsInMemory (addReport_calls calls s)
           = take 100 (rev (List.map_filter call_entry calls) @ reportsInMemory s)
         \<and> length (reportsInMemory (addReport_calls calls s)) \<le> 100
         \<and> (100 \<le> length calls + length (reportsInMemory s)
              \<longrightarrow> length (reportsInMemory (addReport_calls calls s)) = 100)
         \<and> (\<forall>clk rp tp reason st. valid_report_args (Some rp) (Some tp) reason \<longrightarrow>
              fst (addReport clk (Some rp) (Some tp) reason st) = Some (newReport clk rp tp reason)
              \<and> reportsInMemory (snd (addReport clk (Some rp) (Some tp) reason st))
                  = take 100 (newReport clk rp tp reason # reportsInMemory st))"
proof -
  have eq: "reportsInMemory (addReport_calls calls s)
              = take 100 (rev (List.map_filter call_entry calls) @ reportsInMemory s)"
    using addReport_calls_reports [OF assms(2), of s] assms(1)
    by (simp add: maxReportsCount_def List.map_filter_simps)
  have len: "length (List.map_filter call_entry calls) = length calls"
    using assms(2) by (rule length_map_filter_valid)
  have single: "\<forall>clk rp tp reason st. valid_report_args (Some rp) (Some tp) reason \<longrightarrow>
              fst (addReport clk (Some rp) (Some tp) reason st) = Some (newReport clk rp tp reason)
              \<and> reportsInMemory (snd (addReport clk (Some rp) (Some tp) reason st))
                  = take 100 (newReport clk rp tp reason # reportsInMemory st)"
    using addReport_valid by (simp add: maxReportsCount_def)
  have le: "length (reportsInMemory (addReport_calls calls s)) \<le> 100"
    unfolding eq by simp
  have full: "100 \<le> length calls + length (reportsInMemory s)
              \<longrightarrow> length (reportsInMemory (addReport_calls calls s)) = 100"
    unfolding eq using len by (auto simp: min_def)
  from eq le full single show ?thesis by blast
qed

theorem addReport_calls_capped_newest_first_witness:
  "length (reportsInMemory state0) \<le> 100
   \<and> valid_call (clock0, Some alice, Some bob, ''fly'')
   \<and> valid_call (clock0, Some bob, Some alice, '' spam '')
   \<and> reportsInMemory
        (addReport_calls
           [(clock0, Some alice, Some bob, ''fly''), (clock0, Some bob, Some alice, '' spam '')] state0)
       = newReport clock0 bob alice '' spam '' # newReport clock0 alice bob ''fly''
         # replicate 98 (newReport clock0 bob alice ''old'')
   \<and> length (reportsInMemory
        (addReport_calls
           [(clock0, Some alice, Some bob, ''fly''), (clock0, Some bob, Some alice, '' spam '')] state0))
       = 100"
proof -
  have h1: "length (reportsInMemory state0) \<le> 100"
    by (simp add: state0_def)
  have h2: "\<forall>c\<in>set [(clock0, Some alice, Some bob, ''fly''), (clock0, Some bob, Some alice, '' spam '')].
         valid_call c"
    by (simp add: valid_call_def valid_report_args_def alice_def bob_def)
  have st: "reportsInMemory state0 = replicate 100 (newReport clock0 bob alice ''old'')"
    by (simp add: state0_def)
  show ?thesis
    using h1 h2 addReport_calls_capped_newest_first [OF h1 h2]
    by (simp add: st call_entry_def List.map_filter_simps)
qed

text \<open>
  C10: \<^verbatim>\<open>clearAllReports\<close> always leaves the in-memory collection empty. When the
  store write throws it returns false, the collection stays empty (the reports held before
  the call are not restored), the dirty flag stays set and the store is unchanged; when
  the write succeeds it returns true with the dirty flag cleared.
\<close>

theorem clearAllReports_keeps_cleared_on_failure:
  "reportsInMemory (snd (clearAllReports host s)) = []
   \<and> (write_fails host (world s) [] \<longrightarrow>
        fst (clearAllReports host s) = False
        \<and> reportsAreDirty (snd (clearAllReports host s))
        \<and> world (snd (clearAllReports host s)) = world s)
   \<and> (\<not> write_fails host (world s) [] \<longrightarrow>
        fst (clearAllReports host s) = True
        \<and> \<not> reportsAreDirty (snd (clearAllReports host s)))"
  by (simp add: clearAllReports_def persistReportsToDisk_def write_fails_def split: sum.splits)

theorem clearAllReports_keeps_cleared_on_failure_witness:
  "write_fails full_store_host (world state0) []
   \<and> reportsInMemory state0 \<noteq> []
   \<and> fst (clearAllReports full_store_host state0) = False
   \<and> reportsInMemory (snd (clearAllReports full_store_host state0)) = []
   \<and> reportsAreDirty (snd (clearAllReports full_store_host state0))"
proof -
  have h: "write_fails full_store_host (world state0) []"
    by (simp add: write_fails_def full_store_host_def)
  have ne: "reportsInMemory state0 \<noteq> []"
    by (simp add: state0_def)
  show ?thesis
    using h ne clearAllReports_keeps_cleared_on_failure [of full_store_host state0]
    by simp
qed

section \<open>Properties of the action manager\<close>

text \<open>
  C6: when the profile of the check type has \<^verbatim>\<open>enabled\<close> false,
  \<^verbatim>\<open>executeCheckAction\<close> returns without an error, leaves the players' moderation
  state as it was, and makes no call other than the one diagnostic trace (none at all when
  \<^verbatim>\<open>playerUtils.debugLog\<close> is missing): no flag, no log entry, no notification.
  This holds for every actor, null included, and every details payload.
\<close>

theorem executeCheckAction_disabled_profile:
  assumes "checkActionProfiles deps = Some table"
    and "table checkType = Some profile"
    and "\<not> profile_enabled profile"
  shows "executeCheckAction rx now player checkType violationDetails deps st
         = (None,
            (if pu_debugLog deps
             then [DebugLog (''[ActionManager] Actions for checkType '' @ dq @ checkType @ dq
                     @ '' are disabled in its profile. Context: ''
                     @ (case player of Some p \<Rightarrow> nameTag p | None \<Rightarrow> ''System'')) None]
             else []),
            st)"
  using assms by (simp add: executeCheckAction_def trace_def)

theorem executeCheckAction_disabled_profile_witness:
  "checkActionProfiles (action_deps0 False) = Some [''fly_hover'' \<mapsto> fly_profile False]
   \<and> [''fly_hover'' \<mapsto> fly_profile False] ''fly_hover'' = Some (fly_profile False)
   \<and> \<not> profile_enabled (fly_profile False)
   \<and> executeCheckAction no_match_regex 1700000000000 (Some alice) ''fly_hover''
        (JObj [(''value'', JNum 5)]) (action_deps0 False) Map.empty
      = (None,
         [DebugLog (''[ActionManager] Actions for checkType '' @ dq @ ''fly_hover'' @ dq
                     @ '' are disabled in its profile. Context: Alice'') None],
         Map.empty)"
proof -
  have h1: "checkActionProfiles (action_deps0 False) = Some [''fly_hover'' \<mapsto> fly_profile False]"
    by (simp add: action_deps0_def)
  have h2: "[''fly_hover'' \<mapsto> fly_profile False] ''fly_hover'' = Some (fly_profile False)"
    by simp
  have h3: "\<not> profile_enabled (fly_profile False)"
    by (simp add: fly_profile_def)
  show ?thesis
    using h1 h2 h3
      executeCheckAction_disabled_profile [OF h1 h2 h3, of no_match_regex 1700000000000
        "Some alice" "JObj [(''value'', JNum 5)]" Map.empty]
    by (simp add: action_deps0_def alice_def)
qed

text \<open>The same profile, enabled, flags twice, logs and notifies.\<close>

lemma executeCheckAction_enabled_example:
  "executeCheckAction no_match_regex 1700000000000 (Some alice) ''fly_hover''
        (JObj [(''value'', JNum 5)]) (action_deps0 True) Map.empty
   = (None,
      [AddFlag alice ''fly'' ''Flying detected'' ''value: 5'',
       AddFlag alice ''fly'' ''Flying detected'' ''value: 5'',
       DebugLog (''[ActionManager] Flagged Alice for fly (x2). Reason: '' @ dq @ ''Flying detected'' @ dq) None,
       AddLog [JObj [(''adminName'', JStr ''System''), (''actionType'', JStr ''detected_fly_hover''),
                     (''targetName'', JStr ''Alice''), (''details'', JStr ''Fly: value: 5''),
                     (''reason'', JStr ''Flying detected'')]],
       NotifyAdmins ''Fly alert'' (Some alice) None],
      Map.empty)"
  by (simp add: executeCheckAction_def action_deps0_def fly_profile_def no_match_regex_def
      formatActionMessage_def replace_keys.simps flag_step_def log_step_def notify_step_def
      item_step_def trace_def or_else_def formatViolationDetails_def format_eval alice_def
      trim_def is_ws_def numeral_2_eq_2 Let_def dq_def sq_def)

section \<open>Properties of the ban command\<close>

text \<open>
  C3: a human issuer whose permission level is numerically greater than owner bans a found
  target whose level is numerically at most admin. The issuer receives one denial message
  (the hierarchy denial, or the self-ban denial when the target is the issuer), nothing
  else is called, \<^verbatim>\<open>addBan\<close> in particular, and the state of the player-data
  manager is unchanged.
\<close>

theorem ban_admin_issuer_denied:
  assumes "invokedByArg = None \<or> invokedByArg = Some ''PlayerCommand''"
    and "args \<noteq> []"
    and "dep_findPlayer deps = Some findPlayer"
    and "findPlayer (hd args) = Some target"
    and "dep_getPlayerPermissionLevel deps = Some level"
    and "level issuer > owner (permissionLevels host)"
    and "level target \<le> admin (permissionLevels host)"
  shows "execute host (Some issuer) args deps invokedByArg isAutoArg ct st
         = (None,
            [SendMessage issuer
               (getString host
                  (if player_id target = player_id issuer then ''command.ban.self''
                   else ''command.ban.permissionInsufficient'') [])],
            st)"
proof -
  have len: "\<not> length args < 1" using assms(2) by (cases args) simp_all
  have inv: "(case invokedByArg of Some v \<Rightarrow> v | None \<Rightarrow> ''PlayerCommand'') = ''PlayerCommand''"
    using assms(1) by auto
  have h: "hierarchyCheck host deps issuer target = Inr (Some ''command.ban.permissionInsufficient'')"
    using assms(5-7) by (simp add: hierarchyCheck_def Let_def)
  show ?thesis
    using len assms(3,4) by (simp add: execute_def Let_def inv h)
qed


theorem ban_admin_issuer_denied_witness:
  "[''Alice'', ''7d'', ''griefing''] \<noteq> []
   \<and> dep_findPlayer ban_deps0 \<noteq> None
   \<and> dep_getPlayerPermissionLevel ban_deps0 \<noteq> None
   \<and> (1::int) > owner (permissionLevels ban_host0)
   \<and> (0::int) \<le> admin (permissionLevels ban_host0)
   \<and> execute ban_host0 (Some bob) [''Alice'', ''7d'', ''griefing''] ban_deps0 None None None []
       = (None, [SendMessage bob ''command.ban.permissionInsufficient''], [])"
proof -
  let ?find = "\<lambda>n. if n = ''Alice'' then Some alice
                     else if n = ''Bob'' then Some bob
                     else if n = ''Carol'' then Some carol else None"
  let ?level = "\<lambda>p. if player_id p = player_id alice then (0::int)
                      else if player_id p = player_id bob then 1 else 1024"
  have h1: "(None :: string option) = None \<or> (None :: string option) = Some ''PlayerCommand''"
    by simp
  have h2: "[''Alice'', ''7d'', ''griefing''] \<noteq> []" by simp
  have h3: "dep_findPlayer ban_deps0 = Some ?find" by (simp add: ban_deps0_def)
  have h4: "?find (hd [''Alice'', ''7d'', ''griefing'']) = Some alice" by simp
  have h5: "dep_getPlayerPermissionLevel ban_deps0 = Some ?level" by (simp add: ban_deps0_def)
  have h6: "?level bob > owner (permissionLevels ban_host0)"
    by (simp add: ban_host0_def alice_def bob_def)
  have h7: "?level alice \<le> admin (permissionLevels ban_host0)"
    by (simp add: ban_host0_def)
  note t = ban_admin_issuer_denied [OF h1 h2 h3 h4 h5 h6 h7, of None None "[]"]
  have b: "dep_findPlayer ban_deps0 \<noteq> None" using h3 by simp
  have c: "dep_getPlayerPermissionLevel ban_deps0 \<noteq> None" using h5 by simp
  have d: "(1::int) > owner (permissionLevels ban_host0)" by (simp add: ban_host0_def)
  have e: "(0::int) \<le> admin (permissionLevels ban_host0)" by (simp add: ban_host0_def)
  have r: "execute ban_host0 (Some bob) [''Alice'', ''7d'', ''griefing''] ban_deps0 None None None []
       = (None, [SendMessage bob ''command.ban.permissionInsufficient''], [])"
    using t by (simp add: alice_def bob_def ban_host0_def)
  show ?thesis by (intro conjI h2 b c d e r)
qed

lemma applyBan_first_call:
  "\<exists>rest. fst (snd (applyBan host deps player found durationString d reason invokedBy isAuto ct st))
     = AddBan found d reason
         (if invokedBy = ''AutoMod'' then ''AutoMod''
          else (case player of Some p \<Rightarrow> nameTag p | None \<Rightarrow> ''System'')) isAuto ct # rest"
proof -
  obtain banAdded st' where ab:
    "addBan (dep_playerDataManager deps) st found d reason
         (if invokedBy = ''AutoMod'' then ''AutoMod''
          else (case player of Some p \<Rightarrow> nameTag p | None \<Rightarrow> ''System'')) isAuto ct = (banAdded, st')"
    by force
  show ?thesis
    by (cases banAdded; cases "kick_error host found") (simp_all add: applyBan_def ab Let_def)
qed

lemma applyBan_state:
  "snd (snd (applyBan host deps player found durationString d reason invokedBy isAuto ct st))
     = snd (addBan (dep_playerDataManager deps) st found d reason
         (if invokedBy = ''AutoMod'' then ''AutoMod''
          else (case player of Some p \<Rightarrow> nameTag p | None \<Rightarrow> ''System'')) isAuto ct)"
proof -
  obtain banAdded st' where ab:
    "addBan (dep_playerDataManager deps) st found d reason
         (if invokedBy = ''AutoMod'' then ''AutoMod''
          else (case player of Some p \<Rightarrow> nameTag p | None \<Rightarrow> ''System'')) isAuto ct = (banAdded, st')"
    by force
  show ?thesis
    by (cases banAdded; cases "kick_error host found") (simp_all add: applyBan_def ab Let_def)
qed

lemma applyBan_ignores_level:
  "applyBan host (deps\<lparr>dep_getPlayerPermissionLevel := g\<rparr>) player found durationString d reason
     invokedBy isAuto ct st
   = applyBan host deps player found durationString d reason invokedBy isAuto ct st"
  by (simp add: applyBan_def Let_def cong: if_cong)

lemma execute_null_issuer:
  assumes "args \<noteq> []"
    and "dep_findPlayer deps = Some findPlayer"
    and "findPlayer (hd args) = Some target"
    and "dep_parseDuration deps = Some parseDuration"
    and "parseDuration (durationArg args) = d"
    and "d = DurInfinity \<or> (\<exists>ms. d = DurMs ms \<and> 0 < ms)"
  shows "execute host None args deps invokedByArg isAutoArg ct st
         = applyBan host deps None target (durationArg args) d
             (banReason (case invokedByArg of Some v \<Rightarrow> v | None \<Rightarrow> ''PlayerCommand'') args ct)
             (case invokedByArg of Some v \<Rightarrow> v | None \<Rightarrow> ''PlayerCommand'')
             (case isAutoArg of Some b \<Rightarrow> b | None \<Rightarrow> False) ct st"
proof -
  have valid: "\<not> (d = DurNull \<or> (case d of DurMs ms \<Rightarrow> ms \<le> 0 | _ \<Rightarrow> False))"
    using assms(6) by auto
  have len: "\<not> length args < 1" using assms(1) by (cases args) simp_all
  show ?thesis
    using valid len assms(2-5) by (simp add: execute_def banWithDuration_def Let_def)
qed

text \<open>
  C7: with a null issuer, \<^verbatim>\<open>invokedBy\<close> equal to AutoMod and
  \<^verbatim>\<open>isAutoModAction\<close> true, a found target and a valid duration, \<^verbatim>\<open>execute\<close>
  goes straight to applying the ban: its first call is \<^verbatim>\<open>addBan\<close> with
  \<^verbatim>\<open>bannedBy\<close> equal to AutoMod, the state is the one \<^verbatim>\<open>addBan\<close> leaves, and
  the result does not depend on \<^verbatim>\<open>getPlayerPermissionLevel\<close> (no hierarchy check is
  made, so none can deny).
\<close>

theorem ban_automod_null_issuer:
  assumes "args \<noteq> []"
    and "dep_findPlayer deps = Some findPlayer"
    and "findPlayer (hd args) = Some target"
    and "dep_parseDuration deps = Some parseDuration"
    and "parseDuration (durationArg args) = d"
    and "d = DurInfinity \<or> (\<exists>ms. d = DurMs ms \<and> 0 < ms)"
  shows "execute host None args deps (Some ''AutoMod'') (Some True) ct st
           = applyBan host deps None target (durationArg args) d (banReason ''AutoMod'' args ct)
               ''AutoMod'' True ct st
         \<and> (\<exists>rest. fst (snd (execute host None args deps (Some ''AutoMod'') (Some True) ct st))
               = AddBan target d (banReason ''AutoMod'' args ct) ''AutoMod'' True ct # rest)
         \<and> snd (snd (execute host None args deps (Some ''AutoMod'') (Some True) ct st))
               = snd (addBan (dep_playerDataManager deps) st target d
                        (banReason ''AutoMod'' args ct) ''AutoMod'' True ct)
         \<and> execute host None args (deps\<lparr>dep_getPlayerPermissionLevel := g\<rparr>)
               (Some ''AutoMod'') (Some True) ct st
             = execute host None args deps (Some ''AutoMod'') (Some True) ct st"
proof -
  have e: "execute host None args deps (Some ''AutoMod'') (Some True) ct st
           = applyBan host deps None target (durationArg args) d (banReason ''AutoMod'' args ct)
               ''AutoMod'' True ct st"
    using execute_null_issuer [OF assms, of host "Some ''AutoMod''" "Some True" ct st] by simp
  have e': "execute host None args (deps\<lparr>dep_getPlayerPermissionLevel := g\<rparr>)
               (Some ''AutoMod'') (Some True) ct st
           = applyBan host deps None target (durationArg args) d (banReason ''AutoMod'' args ct)
               ''AutoMod'' True ct st"
    using execute_null_issuer [of args "deps\<lparr>dep_getPlayerPermissionLevel := g\<rparr>" findPlayer
            target parseDuration d host "Some ''AutoMod''" "Some True" ct st] assms
    by (simp add: applyBan_ignores_level)
  have f: "\<exists>rest. fst (snd (applyBan host deps None target (durationArg args) d
               (banReason ''AutoMod'' args ct) ''AutoMod'' True ct st))
             = AddBan target d (banReason ''AutoMod'' args ct) ''AutoMod'' True ct # rest"
    using applyBan_first_call [of host deps None target "durationArg args" d
            "banReason ''AutoMod'' args ct" "''AutoMod''" True ct st] by simp
  have s: "snd (snd (applyBan host deps None target (durationArg args) d
               (banReason ''AutoMod'' args ct) ''AutoMod'' True ct st))
             = snd (addBan (dep_playerDataManager deps) st target d
                        (banReason ''AutoMod'' args ct) ''AutoMod'' True ct)"
    using applyBan_state [of host deps None target "durationArg args" d
            "banReason ''AutoMod'' args ct" "''AutoMod''" True ct st] by simp
  show ?thesis unfolding e e' using f s by simp
qed

theorem ban_automod_null_issuer_witness:
  "[''Alice''] \<noteq> []
   \<and> dep_findPlayer ban_deps0 \<noteq> None
   \<and> dep_parseDuration ban_deps0 \<noteq> None
   \<and> (\<exists>rest. fst (snd (execute ban_host0 None [''Alice''] ban_deps0 (Some ''AutoMod'') (Some True)
                 (Some ''fly_hover'') []))
        = AddBan alice DurInfinity ''AutoMod action for fly_hover.'' ''AutoMod'' True
            (Some ''fly_hover'') # rest)
   \<and> snd (snd (execute ban_host0 None [''Alice''] ban_deps0 (Some ''AutoMod'') (Some True)
                 (Some ''fly_hover'') []))
        = [(player_id alice,
            \<lparr>ban_reason = ''AutoMod action for fly_hover.'', bannedBy = ''AutoMod'', unbanTime = 0\<rparr>)]"
proof -
  let ?find = "\<lambda>n. if n = ''Alice'' then Some alice
                     else if n = ''Bob'' then Some bob
                     else if n = ''Carol'' then Some carol else None"
  let ?parse = "\<lambda>d. if d = ''perm'' then DurInfinity
                      else if d = ''7d'' then DurMs 604800000 else DurNull"
  have h1: "[''Alice''] \<noteq> []" by simp
  have h2: "dep_findPlayer ban_deps0 = Some ?find" by (simp add: ban_deps0_def)
  have h3: "?find (hd [''Alice'']) = Some alice" by simp
  have h4: "dep_parseDuration ban_deps0 = Some ?parse" by (simp add: ban_deps0_def)
  have h5: "?parse (durationArg [''Alice'']) = DurInfinity" by (simp add: durationArg_def)
  have h6: "DurInfinity = DurInfinity \<or> (\<exists>ms. DurInfinity = DurMs ms \<and> 0 < ms)" by simp
  have r: "banReason ''AutoMod'' [''Alice''] (Some ''fly_hover'') = ''AutoMod action for fly_hover.''"
    by (simp add: banReason_def autoModReason_def or_else_def)
  have p: "dep_playerDataManager ban_deps0 = pdm0" by (simp add: ban_deps0_def)
  note t = ban_automod_null_issuer [OF h1 h2 h3 h4 h5 h6, of ban_host0 "Some ''fly_hover''" "[]" None]
  have b: "dep_findPlayer ban_deps0 \<noteq> None" using h2 by simp
  have c: "dep_parseDuration ban_deps0 \<noteq> None" using h4 by simp
  have c2: "\<exists>rest. fst (snd (execute ban_host0 None [''Alice''] ban_deps0 (Some ''AutoMod'') (Some True)
                 (Some ''fly_hover'') []))
        = AddBan alice DurInfinity ''AutoMod action for fly_hover.'' ''AutoMod'' True
            (Some ''fly_hover'') # rest"
    using t [THEN conjunct2, THEN conjunct1] by (simp only: r)
  have c3: "snd (snd (execute ban_host0 None [''Alice''] ban_deps0 (Some ''AutoMod'') (Some True)
                 (Some ''fly_hover'') []))
        = [(player_id alice,
            \<lparr>ban_reason = ''AutoMod action for fly_hover.'', bannedBy = ''AutoMod'', unbanTime = 0\<rparr>)]"
    using t [THEN conjunct2, THEN conjunct2, THEN conjunct1] by (simp add: r p pdm0_def)
  show ?thesis by (intro conjI h1 b c c2 c3)
qed


text \<open>
  C9: with a null issuer and \<^verbatim>\<open>invokedBy\<close> left at its default, a found target and a
  valid duration, neither the self-ban check nor the hierarchy checks are made:
  \<^verbatim>\<open>execute\<close> goes straight to applying the ban, its first call is \<^verbatim>\<open>addBan\<close>
  with \<^verbatim>\<open>bannedBy\<close> equal to System, and the result does not depend on
  \<^verbatim>\<open>getPlayerPermissionLevel\<close>.
\<close>

theorem ban_null_issuer_default_invoker:
  assumes "args \<noteq> []"
    and "dep_findPlayer deps = Some findPlayer"
    and "findPlayer (hd args) = Some target"
    and "dep_parseDuration deps = Some parseDuration"
    and "parseDuration (durationArg args) = d"
    and "d = DurInfinity \<or> (\<exists>ms. d = DurMs ms \<and> 0 < ms)"
  shows "execute host None args deps None isAutoArg ct st
           = applyBan host deps None target (durationArg args) d
               (banReason ''PlayerCommand'' args ct) ''PlayerCommand''
               (case isAutoArg of Some b \<Rightarrow> b | None \<Rightarrow> False) ct st
         \<and> (\<exists>rest. fst (snd (execute host None args deps None isAutoArg ct st))
               = AddBan target d (banReason ''PlayerCommand'' args ct) ''System''
                   (case isAutoArg of Some b \<Rightarrow> b | None \<Rightarrow> False) ct # rest)
         \<and> snd (snd (execute host None args deps None isAutoArg ct st))
               = snd (addBan (dep_playerDataManager deps) st target d
                        (banReason ''PlayerCommand'' args ct) ''System''
                        (case isAutoArg of Some b \<Rightarrow> b | None \<Rightarrow> False) ct)
         \<and> execute host None args (deps\<lparr>dep_getPlayerPermissionLevel := g\<rparr>) None isAutoArg ct st
             = execute host None args deps None isAutoArg ct st"
proof -
  let ?auto = "case isAutoArg of Some b \<Rightarrow> b | None \<Rightarrow> False"
  let ?reason = "banReason ''PlayerCommand'' args ct"
  have e: "execute host None args deps None isAutoArg ct st
           = applyBan host deps None target (durationArg args) d ?reason ''PlayerCommand'' ?auto ct st"
    using execute_null_issuer [OF assms, of host None isAutoArg ct st] by simp
  have e': "execute host None args (deps\<lparr>dep_getPlayerPermissionLevel := g\<rparr>) None isAutoArg ct st
           = applyBan host deps None target (durationArg args) d ?reason ''PlayerCommand'' ?auto ct st"
    using execute_null_issuer [of args "deps\<lparr>dep_getPlayerPermissionLevel := g\<rparr>" findPlayer
            target parseDuration d host None isAutoArg ct st] assms
    by (simp add: applyBan_ignores_level)
  have f: "\<exists>rest. fst (snd (applyBan host deps None target (durationArg args) d ?reason
               ''PlayerCommand'' ?auto ct st))
             = AddBan target d ?reason ''System'' ?auto ct # rest"
    using applyBan_first_call [of host deps None target "durationArg args" d ?reason
            "''PlayerCommand''" ?auto ct st] by simp
  have s: "snd (snd (applyBan host deps None target (durationArg args) d ?reason
               ''PlayerCommand'' ?auto ct st))
             = snd (addBan (dep_playerDataManager deps) st target d ?reason ''System'' ?auto ct)"
    using applyBan_state [of host deps None target "durationArg args" d ?reason
            "''PlayerCommand''" ?auto ct st] by simp
  show ?thesis unfolding e e' using f s by simp
qed

theorem ban_null_issuer_default_invoker_witness:
  "[''Alice'', ''7d'', ''griefing''] \<noteq> []
   \<and> dep_findPlayer ban_deps0 \<noteq> None
   \<and> dep_parseDuration ban_deps0 \<noteq> None
   \<and> (\<exists>rest. fst (snd (execute ban_host0 None [''Alice'', ''7d'', ''griefing''] ban_deps0 None None
                 None []))
        = AddBan alice (DurMs 604800000) ''griefing'' ''System'' False None # rest)
   \<and> snd (snd (execute ban_host0 None [''Alice'', ''7d'', ''griefing''] ban_deps0 None None None []))
        = [(player_id alice,
            \<lparr>ban_reason = ''griefing'', bannedBy = ''System'', unbanTime = 1700604800000\<rparr>)]"
proof -
  let ?find = "\<lambda>n. if n = ''Alice'' then Some alice
                     else if n = ''Bob'' then Some bob
                     else if n = ''Carol'' then Some carol else None"
  let ?parse = "\<lambda>d. if d = ''perm'' then DurInfinity
                      else if d = ''7d'' then DurMs 604800000 else DurNull"
  have h1: "[''Alice'', ''7d'', ''griefing''] \<noteq> []" by simp
  have h2: "dep_findPlayer ban_deps0 = Some ?find" by (simp add: ban_deps0_def)
  have h3: "?find (hd [''Alice'', ''7d'', ''griefing'']) = Some alice" by simp
  have h4: "dep_parseDuration ban_deps0 = Some ?parse" by (simp add: ban_deps0_def)
  have h5: "?parse (durationArg [''Alice'', ''7d'', ''griefing'']) = DurMs 604800000"
    by (simp add: durationArg_def)
  have h6: "DurMs 604800000 = DurInfinity \<or> (\<exists>ms. DurMs 604800000 = DurMs ms \<and> 0 < ms)"
    by simp
  have r: "banReason ''PlayerCommand'' [''Alice'', ''7d'', ''griefing''] None = ''griefing''"
    by (simp add: banReason_def)
  have p: "dep_playerDataManager ban_deps0 = pdm0" by (simp add: ban_deps0_def)
  note t = ban_null_issuer_default_invoker [OF h1 h2 h3 h4 h5 h6, of ban_host0 None None "[]" None]
  have b: "dep_findPlayer ban_deps0 \<noteq> None" using h2 by simp
  have c: "dep_parseDuration ban_deps0 \<noteq> None" using h4 by simp
  have c2: "\<exists>rest. fst (snd (execute ban_host0 None [''Alice'', ''7d'', ''griefing''] ban_deps0 None None
                 None []))
        = AddBan alice (DurMs 604800000) ''griefing'' ''System'' False None # rest"
    using t [THEN conjunct2, THEN conjunct1] by (simp add: r)
  have c3: "snd (snd (execute ban_host0 None [''Alice'', ''7d'', ''griefing''] ban_deps0 None None None []))
        = [(player_id alice,
            \<lparr>ban_reason = ''griefing'', bannedBy = ''System'', unbanTime = 1700604800000\<rparr>)]"
    using t [THEN conjunct2, THEN conjunct2, THEN conjunct1] by (simp add: r p pdm0_def)
  show ?thesis by (intro conjI h1 b c c2 c3)
qed

section \<open>Properties of the command manager\<close>

lemmas string_eval = splitWs_def trim_def is_ws_def toLowerCase_def toLowerChar_def char_of_def
  bit_Suc_0_iff

lemma registry0_maps:
  "commandDefinitionMap registry0 = [(''ban'', ban_definition), (''kick'', kick_definition)]"
  "map fst (commandExecutionMap registry0) = [''ban'', ''kick'']"
  "map_of (commandExecutionMap registry0) ''ban'' = Some (banExecutor ban_host0 vals0)"
  by (simp_all add: registry0_def loadCommands_def ban_module_def kick_module_def
      ban_definition_def kick_definition_def Let_def string_eval)

lemma registry1_maps:
  "commandDefinitionMap registry1 = [(''ban'', ban_definition)]"
  by (simp add: registry1_def loadCommands_def ban_module_def ban_definition_def Let_def
      string_eval)

lemma parse_kick: "parseCommand config0 ''!kick Carol'' = (Some ''kick'', [''Carol''])"
  by (simp add: parseCommand_def config0_def string_eval)

lemma parse_ban:
  "parseCommand config0 ''!Ban Carol 7d griefing'' = (Some ''ban'', [''Carol'', ''7d'', ''griefing''])"
  by (simp add: parseCommand_def config0_def string_eval)

lemma registry2_maps:
  "commandDefinitionMap registry2 = [(''ban'', ban_definition), (''constructor'', hidden_definition)]"
  by (simp add: registry2_def loadCommands_def ban_module_def hidden_module_def
      ban_definition_def hidden_definition_def Let_def string_eval)

lemma parse_constructor: "parseCommand config0 ''!constructor'' = (Some ''constructor'', [])"
  by (simp add: parseCommand_def config0_def string_eval)

lemma final_kick: "finalCommandName config0 ''kick'' = Inr ''kick''"
  by (simp add: finalCommandName_def readAlias_def config0_def object_prototype_members_def)

lemma buildObject_unbound_logManager:
  assumes "''logManager'' \<notin> set globals"
  shows "buildObject (handler_bindings @ module_bindings @ globals) dependencies_literal
         = Inl (not_defined ''logManager'')"
  using assms
  by (simp add: dependencies_literal_def handler_bindings_def module_bindings_def)

lemma buildObject_bound_logManager:
  "buildObject (''logManager'' # handler_bindings @ module_bindings @ global_names cmd_host0)
     dependencies_literal
   = Inr (map fst dependencies_literal)"
  by (simp add: dependencies_literal_def handler_bindings_def module_bindings_def cmd_host0_def)


lemma dispatchCommand_unbound_logManager:
  assumes "''logManager'' \<notin> set (global_names host)"
  shows "fst (dispatchCommand host pdm playerUtils commandExecute player message args name level
                hasPData st) \<noteq> None
         \<and> snd (snd (snd (dispatchCommand host pdm playerUtils commandExecute player message args
                name level hasPData st))) = st
         \<and> dispatchCommand host pdm playerUtils commandExecute player message args name level
                hasPData st
           = dispatchCommand host pdm playerUtils otherExecute player message args name level
                hasPData st"
  using buildObject_unbound_logManager [OF assms]
  by (simp add: dispatchCommand_def Let_def)


lemma messages_sent_append: "messages_sent (xs @ ys) = messages_sent xs @ messages_sent ys"
  by (induction xs rule: messages_sent.induct) simp_all

lemma messages_sent_debug: "messages_sent (debug playerUtils m c) = []"
  by (simp add: debug_def)

lemma messages_sent_traces:
  "messages_sent (attemptTrace playerUtils player input args w) = []"
  "messages_sent (aliasTrace playerUtils config player typed name) = []"
  by (simp_all add: attemptTrace_def aliasTrace_def messages_sent_debug)

lemma unknown_message_eq_disabled_message:
  "disabledCommandMessage config name = unknownCommandMessage config name"
  by (simp add: disabledCommandMessage_def unknownCommandMessage_def)

text \<open>
  Where line 79 yields a final command name, a command that is registered but not
  effectively enabled is answered exactly as a name without a registered definition. For
  the same message, player and configuration, the only message sent to the player is the
  same string in both cases, \<^verbatim>\<open>cancel\<close> is true, nothing is thrown, and the calls
  made are the handler's own traces, so no executor runs and the state is unchanged. The
  disabled case adds one debug trace.
\<close>

lemma disabled_command_answers_as_unknown:
  assumes "parseCommand config message = (Some input, args)"
    and "input \<noteq> []"
    and "finalCommandName config input = Inr name"
    and "map_of (commandDefinitionMap reg) name = Some commandDef"
    and "map_of (commandExecutionMap reg) name = Some commandExecute"
    and "\<not> isEffectivelyEnabled config name commandDef"
    and "map_of (commandDefinitionMap reg') name = None"
  shows "handleChatCommand host reg player message pdm config playerUtils st
           = (None,
              attemptTrace playerUtils player (Some input) args
                (watchedContext (getPlayerData pdm st (player_id player)) player)
              @ aliasTrace playerUtils config player input name
              @ [SendMessage player (unknownCommandMessage config name)]
              @ debug playerUtils
                  (''Command '' @ sq @ name @ sq @ '' is disabled. Access denied for ''
                   @ nameTag player @ ''.'') (Some (nameTag player)),
              True, st)
         \<and> handleChatCommand host reg' player message pdm config playerUtils st
           = (None,
              attemptTrace playerUtils player (Some input) args
                (watchedContext (getPlayerData pdm st (player_id player)) player)
              @ aliasTrace playerUtils config player input name
              @ [SendMessage player (unknownCommandMessage config name)],
              True, st)
         \<and> messages_sent (fst (snd (handleChatCommand host reg player message pdm config playerUtils st)))
           = [(player, unknownCommandMessage config name)]
         \<and> messages_sent (fst (snd (handleChatCommand host reg' player message pdm config playerUtils st)))
           = [(player, unknownCommandMessage config name)]"
proof -
  have o: "or_else (Some input) [] = input" using assms(2) by (simp add: or_else_def)
  have a: "handleChatCommand host reg player message pdm config playerUtils st
           = (None,
              attemptTrace playerUtils player (Some input) args
                (watchedContext (getPlayerData pdm st (player_id player)) player)
              @ aliasTrace playerUtils config player input name
              @ [SendMessage player (unknownCommandMessage config name)]
              @ debug playerUtils
                  (''Command '' @ sq @ name @ sq @ '' is disabled. Access denied for ''
                   @ nameTag player @ ''.'') (Some (nameTag player)),
              True, st)"
    using assms(2,4,5,6)
    by (simp add: handleChatCommand_def routeCommand_def assms(1,3) o Let_def
        unknown_message_eq_disabled_message)
  have b: "handleChatCommand host reg' player message pdm config playerUtils st
           = (None,
              attemptTrace playerUtils player (Some input) args
                (watchedContext (getPlayerData pdm st (player_id player)) player)
              @ aliasTrace playerUtils config player input name
              @ [SendMessage player (unknownCommandMessage config name)],
              True, st)"
    using assms(2,7)
    by (simp add: handleChatCommand_def routeCommand_def assms(1,3) o Let_def)
  show ?thesis
    unfolding a b
    by (simp add: messages_sent_append messages_sent_traces messages_sent_debug)
qed

lemma disabled_command_answers_as_unknown_example:
  "parseCommand config0 ''!kick Carol'' = (Some ''kick'', [''Carol''])
   \<and> map_of (commandDefinitionMap registry0) ''kick'' = Some kick_definition
   \<and> map_of (commandExecutionMap registry0) ''kick'' \<noteq> None
   \<and> cmd_enabled kick_definition
   \<and> \<not> isEffectivelyEnabled config0 ''kick'' kick_definition
   \<and> map_of (commandDefinitionMap registry1) ''kick'' = None
   \<and> messages_sent (fst (snd (handleChatCommand cmd_host0 registry0 carol ''!kick Carol'' pdm0
                                 config0 utils0 [])))
       = [(carol, sect # ''cUnknown command: !kick'' @ sect # ''r. Type !help for assistance.'')]
   \<and> messages_sent (fst (snd (handleChatCommand cmd_host0 registry1 carol ''!kick Carol'' pdm0
                                 config0 utils0 [])))
       = [(carol, sect # ''cUnknown command: !kick'' @ sect # ''r. Type !help for assistance.'')]
   \<and> fst (handleChatCommand cmd_host0 registry0 carol ''!kick Carol'' pdm0 config0 utils0 []) = None
   \<and> snd (snd (handleChatCommand cmd_host0 registry0 carol ''!kick Carol'' pdm0 config0 utils0 []))
       = (True, [])"
proof -
  let ?kick = "\<lambda>(p::Player) (args::string list) (deps::dep_bundle) (st::(string \<times> BanInfo) list).
                 (None :: js_error option, [ConsoleLog (''kick '' @ join '' '' args)], st)"
  have h1: "parseCommand config0 ''!kick Carol'' = (Some ''kick'', [''Carol''])"
    by (rule parse_kick)
  have h2: "''kick'' \<noteq> []" by simp
  have h3: "finalCommandName config0 ''kick'' = Inr ''kick''" by (rule final_kick)
  have h4: "map_of (commandDefinitionMap registry0) ''kick'' = Some kick_definition"
    by (simp add: registry0_maps)
  have h5: "map_of (commandExecutionMap registry0) ''kick'' = Some ?kick"
    by (simp add: registry0_def loadCommands_def ban_module_def kick_module_def
      ban_definition_def kick_definition_def Let_def string_eval)
  have h6: "\<not> isEffectivelyEnabled config0 ''kick'' kick_definition"
    by (simp add: isEffectivelyEnabled_def config0_def)
  have h7: "map_of (commandDefinitionMap registry1) ''kick'' = None"
    by (simp add: registry1_maps)
  note t = disabled_command_answers_as_unknown [OF h1 h2 h3 h4 h5 h6 h7,
             of cmd_host0 carol pdm0 utils0 "[]"]
  have m: "unknownCommandMessage config0 ''kick''
           = sect # ''cUnknown command: !kick'' @ sect # ''r. Type !help for assistance.''"
    by (simp add: unknownCommandMessage_def config0_def)
  have c0: "map_of (commandExecutionMap registry0) ''kick'' \<noteq> None" using h5 by simp
  have c1: "cmd_enabled kick_definition" by (simp add: kick_definition_def)
  have c2: "messages_sent (fst (snd (handleChatCommand cmd_host0 registry0 carol ''!kick Carol'' pdm0
                                 config0 utils0 [])))
       = [(carol, sect # ''cUnknown command: !kick'' @ sect # ''r. Type !help for assistance.'')]"
    using t [THEN conjunct2, THEN conjunct2, THEN conjunct1] by (simp only: m)
  have c3: "messages_sent (fst (snd (handleChatCommand cmd_host0 registry1 carol ''!kick Carol'' pdm0
                                 config0 utils0 [])))
       = [(carol, sect # ''cUnknown command: !kick'' @ sect # ''r. Type !help for assistance.'')]"
    using t [THEN conjunct2, THEN conjunct2, THEN conjunct2] by (simp only: m)
  have c4: "fst (handleChatCommand cmd_host0 registry0 carol ''!kick Carol'' pdm0 config0 utils0 []) = None"
    using t [THEN conjunct1] by simp
  have c5: "snd (snd (handleChatCommand cmd_host0 registry0 carol ''!kick Carol'' pdm0 config0 utils0 []))
       = (True, [])"
    using t [THEN conjunct1] by simp
  show ?thesis by (intro conjI h1 h4 c0 c1 h6 h7 c2 c3 c4 c5)
qed

text \<open>
  An input whose alias read yields an inherited member of \<^verbatim>\<open>Object.prototype\<close>:
  line 79 throws, whatever the registry holds, before any message is sent and before
  \<^verbatim>\<open>cancel\<close> is set.
\<close>

lemma handleChatCommand_inherited_alias:
  assumes "parseCommand config message = (Some input, args)"
    and "input \<noteq> []"
    and "commandAliases config = Some aliases"
    and "aliases input = None"
    and "input \<in> set object_prototype_members"
  shows "handleChatCommand host reg player message pdm config playerUtils st
         = (Some (not_a_function ''aliasTarget.toLowerCase''),
            attemptTrace playerUtils player (Some input) args
              (watchedContext (getPlayerData pdm st (player_id player)) player),
            False, st)"
proof -
  have o: "or_else (Some input) [] = input" using assms(2) by (simp add: or_else_def)
  have f: "finalCommandName config input = Inl (not_a_function ''aliasTarget.toLowerCase'')"
    using assms(3-5) by (simp add: finalCommandName_def readAlias_def)
  show ?thesis
    using assms(2) by (simp add: handleChatCommand_def assms(1) o f Let_def)
qed

text \<open>
  C4, at an input where it fails: Carol sends \<^verbatim>\<open>!constructor\<close>, with an alias table
  that has no own alias of that name. Line 78 reads the inherited
  \<^verbatim>\<open>Object.prototype.constructor\<close>, and line 79 throws a TypeError. This happens both
  when a disabled command is registered under that name and when no definition is
  registered under it: in both cases no message is sent to the player, and
  \<^verbatim>\<open>cancel\<close> stays false, so the chat message is not consumed.
\<close>

theorem handleChatCommand_inherited_alias_not_consumed:
  "map_of (commandDefinitionMap registry2) ''constructor'' = Some hidden_definition
   \<and> \<not> isEffectivelyEnabled config0 ''constructor'' hidden_definition
   \<and> map_of (commandDefinitionMap registry1) ''constructor'' = None
   \<and> handleChatCommand cmd_host0 registry2 carol ''!constructor'' pdm0 config0 utils0 []
       = (Some (JsError ''TypeError'' ''aliasTarget.toLowerCase is not a function'' None),
          [DebugLog (''Player Carol issued command attempt: '' @ dq @ ''constructor'' @ dq
                     @ '' with args: []'') None],
          False, [])
   \<and> handleChatCommand cmd_host0 registry1 carol ''!constructor'' pdm0 config0 utils0 []
       = (Some (JsError ''TypeError'' ''aliasTarget.toLowerCase is not a function'' None),
          [DebugLog (''Player Carol issued command attempt: '' @ dq @ ''constructor'' @ dq
                     @ '' with args: []'') None],
          False, [])"
proof -
  have c1: "map_of (commandDefinitionMap registry2) ''constructor'' = Some hidden_definition"
    by (simp add: registry2_maps)
  have c2: "\<not> isEffectivelyEnabled config0 ''constructor'' hidden_definition"
    by (simp add: isEffectivelyEnabled_def config0_def hidden_definition_def)
  have c3: "map_of (commandDefinitionMap registry1) ''constructor'' = None"
    by (simp add: registry1_maps)
  have h2: "''constructor'' \<noteq> []" by simp
  have h3: "commandAliases config0 = Some [''b'' \<mapsto> ''ban'']" by (simp add: config0_def)
  have h4: "[''b'' \<mapsto> ''ban''] ''constructor'' = None" by simp
  have h5: "''constructor'' \<in> set object_prototype_members"
    by (simp add: object_prototype_members_def)
  have a: "attemptTrace utils0 carol (Some ''constructor'') []
             (watchedContext (getPlayerData pdm0 [] (player_id carol)) carol)
           = [DebugLog (''Player Carol issued command attempt: '' @ dq @ ''constructor'' @ dq
                     @ '' with args: []'') None]"
    by (simp add: attemptTrace_def debug_def utils0_def or_else_def carol_def pdm0_def
        watchedContext_def)
  have e: "not_a_function ''aliasTarget.toLowerCase''
           = JsError ''TypeError'' ''aliasTarget.toLowerCase is not a function'' None"
    by (simp add: not_a_function_def)
  have r2: "handleChatCommand cmd_host0 registry2 carol ''!constructor'' pdm0 config0 utils0 []
       = (Some (JsError ''TypeError'' ''aliasTarget.toLowerCase is not a function'' None),
          [DebugLog (''Player Carol issued command attempt: '' @ dq @ ''constructor'' @ dq
                     @ '' with args: []'') None],
          False, [])"
    using handleChatCommand_inherited_alias [OF parse_constructor h2 h3 h4 h5,
            of cmd_host0 registry2 carol pdm0 utils0 "[]"]
    by (simp only: a e)
  have r1: "handleChatCommand cmd_host0 registry1 carol ''!constructor'' pdm0 config0 utils0 []
       = (Some (JsError ''TypeError'' ''aliasTarget.toLowerCase is not a function'' None),
          [DebugLog (''Player Carol issued command attempt: '' @ dq @ ''constructor'' @ dq
                     @ '' with args: []'') None],
          False, [])"
    using handleChatCommand_inherited_alias [OF parse_constructor h2 h3 h4 h5,
            of cmd_host0 registry1 carol pdm0 utils0 "[]"]
    by (simp only: a e)
  show ?thesis by (intro conjI c1 c2 c3 r2 r1)
qed

text \<open>
  The dispatch step in general. Where no binding of \<^verbatim>\<open>logManager\<close> exists, every
  message that passes the permission check makes \<^verbatim>\<open>handleChatCommand\<close> reject,
  with the state untouched. Where the name is bound, the \<^verbatim>\<open>try\<close> reports an
  executor's error and \<^verbatim>\<open>handleChatCommand\<close> returns normally.
\<close>

lemma buildObject_with_logManager:
  assumes "''logManager'' \<in> set globals" and "''Array'' \<in> set globals"
  shows "buildObject (handler_bindings @ module_bindings @ globals) dependencies_literal
         = Inr (map fst dependencies_literal)"
  using assms
  by (simp add: dependencies_literal_def handler_bindings_def module_bindings_def)

lemma invokeExecutor_catches:
  assumes "commandExecute player args dependencies st = (Some error, evs, st')"
  shows "invokeExecutor pdm playerUtils commandExecute player args dependencies name hasPData st
         = (evs
            @ [SendMessage player
                 (sect # ''cAn error occurred while executing command '' @ sq @ name @ sq
                  @ ''. Please report this.''),
               ConsoleError
                 (''[CommandManager] Error executing command '' @ name @ '' for player ''
                  @ nameTag player @ '': '' @ stack_or_error error)]
            @ debug playerUtils
                (''Error executing command '' @ name @ '' for '' @ nameTag player @ '': ''
                 @ error_toString error) None
            @ [AddLog [JStr ''command_error'',
                       JStr (''Cmd: '' @ name @ '', Player: '' @ nameTag player @ '', Args: [''
                             @ join '', '' args @ ''], Error: '' @ err_message error)]],
            st')"
  using assms by (simp add: invokeExecutor_def)

lemma dispatchCommand_returns_when_bound:
  assumes "''logManager'' \<in> set (global_names host)" and "''Array'' \<in> set (global_names host)"
    and "has_debugLog playerUtils"
  shows "fst (dispatchCommand host pdm playerUtils commandExecute player message args name level
                hasPData st) = None"
  using buildObject_with_logManager [OF assms(1,2)] assms(3)
  by (simp add: dispatchCommand_def Let_def split: prod.splits)

lemma handleChatCommand_returns_when_bound:
  assumes "''logManager'' \<in> set (global_names host)" and "''Array'' \<in> set (global_names host)"
    and "has_debugLog playerUtils"
    and p: "parseCommand config message = (input, args)"
    and f: "finalCommandName config (or_else input []) = Inr name"
  shows "fst (handleChatCommand host reg player message pdm config playerUtils st) = None"
proof -
  have d: "\<And>ex name level hasPData.
             fst (dispatchCommand host pdm playerUtils ex player message args name level hasPData st)
             = None"
    using assms(1-3) by (rule dispatchCommand_returns_when_bound)
  show ?thesis
    using d
    by (simp add: handleChatCommand_def routeCommand_def p f Let_def case_prod_beta
        split: option.splits)
qed

lemma handleChatCommand_always_rejects_at_dispatch:
  assumes "''logManager'' \<notin> set (global_names host)"
    and "parseCommand config message = (Some input, args)"
    and "input \<noteq> []"
    and "finalCommandName config input = Inr name"
    and "map_of (commandDefinitionMap reg) name = Some commandDef"
    and "map_of (commandExecutionMap reg) name = Some commandExecute"
    and "isEffectivelyEnabled config name commandDef"
    and "cm_getPlayerPermissionLevel host player \<le> permissionLevel commandDef"
  shows "fst (handleChatCommand host reg player message pdm config playerUtils st) \<noteq> None
         \<and> snd (snd (snd (handleChatCommand host reg player message pdm config playerUtils st))) = st"
proof -
  have o: "or_else (Some input) [] = input" using assms(3) by (simp add: or_else_def)
  have b: "buildObject (handler_bindings @ module_bindings @ global_names host) dependencies_literal
           = Inl (not_defined ''logManager'')"
    using assms(1)
    by (simp add: dependencies_literal_def handler_bindings_def module_bindings_def)
  have d: "\<And>level hasPData.
             fst (dispatchCommand host pdm playerUtils commandExecute player message args
                    name level hasPData st) \<noteq> None
             \<and> snd (snd (snd (dispatchCommand host pdm playerUtils commandExecute player message args
                    name level hasPData st))) = st"
    using b by (simp add: dispatchCommand_def Let_def)
  show ?thesis
    using assms(3,5-8) d
    by (simp add: handleChatCommand_def routeCommand_def assms(2,4) o Let_def case_prod_beta)
qed

text \<open>
  C1, at an input that reaches the dispatch step: Bob, an admin, sends
  \<^verbatim>\<open>!Ban Carol 7d griefing\<close> with the ban command registered and enabled. The
  dependencies object of lines 133 to 149 reads \<^verbatim>\<open>logManager\<close>, which no import or
  declaration of the module binds, before the \<^verbatim>\<open>try\<close> of line 151 is entered:
  \<^verbatim>\<open>handleChatCommand\<close> rejects with a ReferenceError, the executor is not called,
  and no failure message or \<^verbatim>\<open>command_error\<close> entry is produced.
\<close>

theorem handleChatCommand_rejects_at_dispatch:
  "handleChatCommand cmd_host0 registry0 bob ''!Ban Carol 7d griefing'' pdm0 config0 utils0 []
   = (Some (JsError ''ReferenceError'' ''logManager is not defined'' None),
      [DebugLog (''Player Bob issued command attempt: '' @ dq @ ''ban'' @ dq
                 @ '' with args: [Carol, 7d, griefing]'') None,
       ConsoleWarn ''[AdminCommandLog] 2023-11-14T22:13:20.000Z - Player: Bob - Command: !Ban Carol 7d griefing''],
      True, [])"
proof -
  have g: "''logManager'' \<notin> set (global_names cmd_host0)"
    by (simp add: cmd_host0_def)
  have d: "dispatchCommand cmd_host0 pdm0 utils0 (banExecutor ban_host0 vals0) bob
             ''!Ban Carol 7d griefing'' [''Carol'', ''7d'', ''griefing''] ''ban'' 1 False []
           = (Some (not_defined ''logManager''),
              [ConsoleWarn ''[AdminCommandLog] 2023-11-14T22:13:20.000Z - Player: Bob - Command: !Ban Carol 7d griefing''],
              True, [])"
    using buildObject_unbound_logManager [OF g]
    by (simp add: dispatchCommand_def Let_def adminCommandLog_def pdm0_def cmd_host0_def bob_def)
  have f: "finalCommandName config0 ''ban'' = Inr ''ban''"
    by (simp add: finalCommandName_def readAlias_def config0_def object_prototype_members_def)
  have e: "isEffectivelyEnabled config0 ''ban'' ban_definition"
    by (simp add: isEffectivelyEnabled_def config0_def ban_definition_def)
  have l: "cm_getPlayerPermissionLevel cmd_host0 bob = 1"
    by (simp add: cmd_host0_def level0_def alice_def bob_def)
  have p: "permissionLevel ban_definition = 1" by (simp add: ban_definition_def)
  have a: "attemptTrace utils0 bob (Some ''ban'') [''Carol'', ''7d'', ''griefing''] None
           = [DebugLog (''Player Bob issued command attempt: '' @ dq @ ''ban'' @ dq
                 @ '' with args: [Carol, 7d, griefing]'') None]"
    by (simp add: attemptTrace_def debug_def utils0_def or_else_def bob_def)
  have r: "aliasTrace utils0 config0 bob ''ban'' ''ban'' = []"
    by (simp add: aliasTrace_def aliasResolved_def readAlias_def config0_def
        object_prototype_members_def)
  have n: "getPlayerData pdm0 [] (player_id bob) = None" by (simp add: pdm0_def)
  show ?thesis
    by (simp add: handleChatCommand_def routeCommand_def parse_ban Let_def or_else_def f
        registry0_maps e l p d a r n not_defined_def watchedContext_def)
qed


text \<open>
  C2, at the same input: the object literal has no property \<^verbatim>\<open>findPlayer\<close>,
  \<^verbatim>\<open>parseDuration\<close> or \<^verbatim>\<open>addLog\<close>. Even in a scope that binds
  \<^verbatim>\<open>logManager\<close>, where the object can be built, it has exactly the properties of
  the literal, and the ban command called with it rejects with a TypeError at its call of
  \<^verbatim>\<open>findPlayer\<close>.
\<close>

theorem gateway_bundle_lacks_ban_collaborators:
  "''findPlayer'' \<notin> set (map fst dependencies_literal)
   \<and> ''parseDuration'' \<notin> set (map fst dependencies_literal)
   \<and> ''addLog'' \<notin> set (map fst dependencies_literal)
   \<and> buildObject (''logManager'' # handler_bindings @ module_bindings @ global_names cmd_host0)
        dependencies_literal
      = Inr (map fst dependencies_literal)
   \<and> banExecutor ban_host0 vals0 bob [''Carol'', ''7d'', ''griefing''] (map fst dependencies_literal) []
      = (Some (JsError ''TypeError'' ''findPlayer is not a function'' None), [], [])"
proof -
  have k: "''findPlayer'' \<notin> set (map fst dependencies_literal)"
    "''parseDuration'' \<notin> set (map fst dependencies_literal)"
    "''addLog'' \<notin> set (map fst dependencies_literal)"
    by (simp_all add: dependencies_literal_def)
  have b: "dep_findPlayer (banDependencies vals0 (map fst dependencies_literal)) = None"
    using k(1) by (simp add: banDependencies_def)
  have x: "banExecutor ban_host0 vals0 bob [''Carol'', ''7d'', ''griefing'']
             (map fst dependencies_literal) []
      = (Some (JsError ''TypeError'' ''findPlayer is not a function'' None), [], [])"
    by (simp add: banExecutor_def execute_def Let_def b not_a_function_def)
  show ?thesis by (intro conjI k buildObject_bound_logManager x)
qed

end
